theory Spec2Isabelle
  imports Complex_Main "HOL-Library.Log_Nat" "HOL-Library.Word"
begin

section \<open>The mint page of App.tsx: data model\<close>

text \<open>
  The component \<^verbatim>\<open>App\<close> (third revision in \<^verbatim>\<open>src/App.tsx\<close>) keeps nine
  \<^verbatim>\<open>useState\<close> cells.  The numeric cells hold JavaScript numbers that are always
  integers (they come from \<^verbatim>\<open>Number(bigint)\<close>, \<^verbatim>\<open>parseInt\<close> and
  \<^verbatim>\<open>Math.min\<close>/\<^verbatim>\<open>Math.max\<close> of such); they are modelled as \<open>int\<close>, which is
  exact below \<open>2^53\<close>.  \<^verbatim>\<open>account\<close> is \<^verbatim>\<open>string | null\<close>; \<open>None\<close> stands for
  \<^verbatim>\<open>null\<close> and \<^verbatim>\<open>undefined\<close>.
\<close>

record app_state =
  account :: "string option"
  minting :: bool
  totalSupply :: int
  maxSupply :: int
  mintPriceWei :: string
  status :: string
  mintQuantity :: int
  userMintedCount :: int
  contractMaxPerWallet :: int

definition initial_state :: app_state where
  "initial_state =
     \<lparr>account = None, minting = False, totalSupply = 0, maxSupply = 500,
      mintPriceWei = ''0'', status = '''', mintQuantity = 1, userMintedCount = 0,
      contractMaxPerWallet = 2\<rparr>"

text \<open>JavaScript truthiness of a \<^verbatim>\<open>string | null\<close>: \<^verbatim>\<open>null\<close> and \<^verbatim>\<open>""\<close> are falsy.\<close>

definition truthy :: "string option \<Rightarrow> bool" where
  "truthy x = (case x of None \<Rightarrow> False | Some a \<Rightarrow> a \<noteq> [])"

text \<open>\<^verbatim>\<open>a || b\<close> on optional strings.\<close>

definition or_else :: "string option \<Rightarrow> string \<Rightarrow> string" where
  "or_else x d = (case x of None \<Rightarrow> d | Some a \<Rightarrow> if a = [] then d else a)"

subsection \<open>Decimal rendering\<close>

definition digit_char :: "nat \<Rightarrow> char" where
  "digit_char d = ''0123456789'' ! d"

fun nat_toString :: "nat \<Rightarrow> string" where
  "nat_toString n = (if n < 10 then [digit_char n] else nat_toString (n div 10) @ [digit_char (n mod 10)])"

declare nat_toString.simps [simp del]

text \<open>
  \<^verbatim>\<open>String(n)\<close> / template interpolation of an integer-valued number: its decimal digits.
  (JavaScript prints numbers from \<open>10\<^sup>2\<^sup>1\<close> on in exponent form; that form is not modelled.)
\<close>

definition int_toString :: "int \<Rightarrow> string" where
  "int_toString i = (if i < 0 then CHR ''-'' # nat_toString (nat (- i)) else nat_toString (nat i))"

subsection \<open>Case-insensitive regular-expression tests\<close>

text \<open>
  Every regular expression of the source is an alternation of literal words with the
  \<^verbatim>\<open>i\<close> flag, used through \<^verbatim>\<open>.test\<close>: it succeeds iff one of the words occurs in the
  subject, ASCII letters compared without case.
\<close>

definition lower_char :: "char \<Rightarrow> char" where
  "lower_char c =
     (case map_of (zip ''ABCDEFGHIJKLMNOPQRSTUVWXYZ'' ''abcdefghijklmnopqrstuvwxyz'') c of
        Some l \<Rightarrow> l
      | None \<Rightarrow> c)"

primrec occurs_in :: "string \<Rightarrow> string \<Rightarrow> bool" where
  "occurs_in p [] = (p = [])"
| "occurs_in p (c # cs) = (take (length p) (c # cs) = p \<or> occurs_in p cs)"

definition test_i :: "string list \<Rightarrow> string \<Rightarrow> bool" where
  "test_i alts subject =
     list_ex (\<lambda>p. occurs_in (map lower_char p) (map lower_char subject)) alts"

section \<open>JavaScript numbers and progressPercent\<close>

text \<open>
  \<^verbatim>\<open>progressPercent\<close> is computed on JavaScript numbers: IEEE 754 binary64 values,
  including the infinities and \<^verbatim>\<open>NaN\<close>.  A finite double is modelled by the rational it
  denotes; the sign of zero is not modelled (the operands of the page are never negative).
\<close>

datatype jsnum = Finite rat | PosInf | NegInf | NaN

text \<open>\<open>\<lfloor>log\<^sub>2 q\<rfloor>\<close> for \<open>q > 0\<close>, from the bit lengths of numerator and denominator.\<close>

definition ilog2 :: "rat \<Rightarrow> int" where
  "ilog2 q =
     (case quotient_of q of
        (n, d) \<Rightarrow>
          let e0 = bitlen n - bitlen d
          in if 2 powi e0 \<le> q then e0 else e0 - 1)"

definition round_half_even :: "rat \<Rightarrow> int" where
  "round_half_even x =
     (let f = \<lfloor>x\<rfloor>; r = x - of_int f
      in if r < 1 / 2 then f else if 1 / 2 < r then f + 1 else if even f then f else f + 1)"

text \<open>
  Rounding a positive rational to the nearest double, ties to even: 53 significant bits,
  the unit in the last place no smaller than \<open>2\<^sup>-\<^sup>1\<^sup>0\<^sup>7\<^sup>4\<close> (subnormals); a result of
  \<open>2\<^sup>1\<^sup>0\<^sup>2\<^sup>4\<close> or more overflows to infinity.
\<close>

definition ulp_exponent :: "rat \<Rightarrow> int" where
  "ulp_exponent q = max (ilog2 q - 52) (- 1074)"

definition nearest_double :: "rat \<Rightarrow> rat" where
  "nearest_double q = of_int (round_half_even (q / 2 powi ulp_exponent q)) * 2 powi ulp_exponent q"

definition to_double :: "rat \<Rightarrow> jsnum" where
  "to_double q =
     (if q = 0 then Finite 0
      else if 0 < q then (if 2 powi 1024 \<le> nearest_double q then PosInf else Finite (nearest_double q))
      else (if 2 powi 1024 \<le> nearest_double (- q) then NegInf else Finite (- nearest_double (- q))))"

text \<open>The number a state cell holds: \<^verbatim>\<open>Number(bigint)\<close> rounds to the nearest double.\<close>

definition js_number :: "int \<Rightarrow> jsnum" where
  "js_number i = to_double (of_int i)"

text \<open>
  The contract's reads return \<^verbatim>\<open>uint256\<close> values.  \<^verbatim>\<open>Number(x)\<close> of such a value is a finite
  double that denotes an integer (lemma \<open>js_number_uint256\<close> below); \<open>Number\<close> is that
  integer, which is what the numeric state cells hold.  It is \<open>x\<close> itself below \<open>2^53\<close> and
  a rounded value above.
\<close>

type_synonym uint256 = "256 word"

definition Number :: "uint256 \<Rightarrow> int" where
  "Number x = (case js_number (uint x) of Finite r \<Rightarrow> \<lfloor>r\<rfloor> | _ \<Rightarrow> 0)"









section \<open>Effects: wallet, contract, console, timers\<close>

text \<open>A thrown value; the handlers only ever look at these three properties.\<close>

datatype js_error = JsError (err_code: "int option") (shortMessage: "string option") (message: "string option")

record chain_params =
  chainId :: string
  chainName :: string
  currencyName :: string
  currencySymbol :: string
  currencyDecimals :: nat
  rpcUrls :: "string list"
  blockExplorerUrls :: "string list"

datatype request =
    eth_chainId
  | wallet_switchEthereumChain string
  | wallet_addEthereumChain chain_params
  | eth_requestAccounts
  | getSigner
  | call_totalSupply
  | call_maxSupply
  | call_mintPrice
  | call_maxPerWallet
  | call_mintedCount string
  | call_balanceOf string
  | mint_staticCall int nat
  | mint_estimateGas int nat
  | mint_send int nat
  | tx_wait

datatype level = Log | Warn | Error

datatype event =
    Request request
  | Alert string
  | Console level string
  | Timeout nat

text \<open>
  The outside world answers each request; the answer may depend on everything that
  happened before (the trace).  \<open>ethereum\<close> says whether \<^verbatim>\<open>window.ethereum\<close> exists.
\<close>

record env =
  ethereum :: bool
  CONTRACT_ADDRESS :: "string option"
  VITE_MONAD_RPC_URL :: "string option"
  answer_unit :: "event list \<Rightarrow> request \<Rightarrow> js_error + unit"
  answer_uint :: "event list \<Rightarrow> request \<Rightarrow> js_error + uint256"
  answer_string :: "event list \<Rightarrow> request \<Rightarrow> js_error + string"
  answer_accounts :: "event list \<Rightarrow> request \<Rightarrow> js_error + string list"

record world =
  app :: app_state
  trace :: "event list"

type_synonym 'a io = "world \<Rightarrow> (js_error + 'a) \<times> world"

definition ret :: "'a \<Rightarrow> 'a io" where
  "ret x w = (Inr x, w)"

definition throw :: "js_error \<Rightarrow> 'a io" where
  "throw e w = (Inl e, w)"

definition bind :: "'a io \<Rightarrow> ('a \<Rightarrow> 'b io) \<Rightarrow> 'b io" where
  "bind m f w = (case m w of (Inl e, w') \<Rightarrow> (Inl e, w') | (Inr x, w') \<Rightarrow> f x w')"

definition seq :: "unit io \<Rightarrow> 'b io \<Rightarrow> 'b io" where
  "seq m k = bind m (\<lambda>_. k)"

definition try_catch :: "'a io \<Rightarrow> (js_error \<Rightarrow> 'a io) \<Rightarrow> 'a io" where
  "try_catch m h w = (case m w of (Inl e, w') \<Rightarrow> h e w' | (Inr x, w') \<Rightarrow> (Inr x, w'))"

definition try_finally :: "'a io \<Rightarrow> (world \<Rightarrow> world) \<Rightarrow> 'a io" where
  "try_finally m fin w = (case m w of (r, w') \<Rightarrow> (r, fin w'))"

definition emit :: "event \<Rightarrow> unit io" where
  "emit ev w = (Inr (), w\<lparr>trace := trace w @ [ev]\<rparr>)"

definition modify :: "(app_state \<Rightarrow> app_state) \<Rightarrow> unit io" where
  "modify f w = (Inr (), w\<lparr>app := f (app w)\<rparr>)"

definition ask :: "(event list \<Rightarrow> request \<Rightarrow> js_error + 'a) \<Rightarrow> request \<Rightarrow> 'a io" where
  "ask answer r w = (answer (trace w) r, w\<lparr>trace := trace w @ [Request r]\<rparr>)"

definition requests :: "event list \<Rightarrow> request list" where
  "requests evs = concat (map (\<lambda>ev. case ev of Request r \<Rightarrow> [r] | _ \<Rightarrow> []) evs)"

section \<open>Chain reader: refreshContractData\<close>

text \<open>\<^verbatim>\<open>getContract\<close> throws when \<^verbatim>\<open>CONTRACT_ADDRESS\<close> is unset or empty.\<close>

definition getContract :: "env \<Rightarrow> unit io" where
  "getContract E =
     (if truthy (CONTRACT_ADDRESS E) then ret ()
      else throw (JsError None None
             (Some ''VITE_CONTRACT_ADDRESS is not set. Configure it in your Vercel env.'')))"

text \<open>
  The inner \<^verbatim>\<open>try\<close>/\<^verbatim>\<open>catch\<close> ladder that reads the minted count of \<open>a\<close>:
  \<^verbatim>\<open>Number(mintedCount(a))\<close>, else \<^verbatim>\<open>Number(balanceOf(a))\<close>, else \<open>0\<close>.
\<close>

definition read_user_minted :: "env \<Rightarrow> string \<Rightarrow> unit io" where
  "read_user_minted E a =
     try_catch
       (bind (ask (answer_uint E) (call_mintedCount a)) (\<lambda>minted.
        seq (emit (Console Log ''User minted count from contract:''))
            (modify (\<lambda>s. s\<lparr>userMintedCount := Number minted\<rparr>))))
       (\<lambda>mcErr.
          try_catch
            (bind (ask (answer_uint E) (call_balanceOf a)) (\<lambda>bal.
             seq (emit (Console Log ''Fallback balanceOf as minted count:''))
                 (modify (\<lambda>s. s\<lparr>userMintedCount := Number bal\<rparr>))))
            (\<lambda>balErr.
               seq (emit (Console Warn ''Failed to read user minted count''))
                   (modify (\<lambda>s. s\<lparr>userMintedCount := 0\<rparr>))))"

text \<open>
  \<^verbatim>\<open>refreshContractData\<close> is a \<^verbatim>\<open>useCallback\<close> closure over \<^verbatim>\<open>account\<close>: the
  account it tests is the one of the render that created it, passed here as \<open>acct\<close>.
\<close>

definition refresh_body :: "env \<Rightarrow> string option \<Rightarrow> unit io" where
  "refresh_body E acct =
     seq (getContract E)
    (bind (ask (answer_uint E) call_totalSupply) (\<lambda>supply.
     bind (ask (answer_uint E) call_maxSupply) (\<lambda>mx.
     bind (ask (answer_uint E) call_mintPrice) (\<lambda>price.
     bind (ask (answer_uint E) call_maxPerWallet) (\<lambda>maxPerWallet.
     seq (modify (\<lambda>s. s\<lparr>totalSupply := Number supply\<rparr>))
    (seq (modify (\<lambda>s. s\<lparr>maxSupply := min (Number mx) 500\<rparr>))
    (seq (modify (\<lambda>s. s\<lparr>mintPriceWei := nat_toString (unat price)\<rparr>))
    (seq (modify (\<lambda>s. s\<lparr>contractMaxPerWallet := Number maxPerWallet\<rparr>))
    (seq (emit (Console Log ''Contract values - maxPerWallet:''))
         (case acct of
            None \<Rightarrow> ret ()
          | Some a \<Rightarrow> if a \<noteq> [] then read_user_minted E a else ret ()))))))))))"

definition refreshContractData :: "env \<Rightarrow> string option \<Rightarrow> unit io" where
  "refreshContractData E acct =
     (if \<not> ethereum E then ret ()
      else try_catch (refresh_body E acct)
             (\<lambda>e. emit (Console Error ''refreshContractData err'')))"

text \<open>The five cells a refresh may write.\<close>

definition snapshot :: "app_state \<Rightarrow> int \<times> int \<times> string \<times> int \<times> int" where
  "snapshot s = (totalSupply s, maxSupply s, mintPriceWei s, contractMaxPerWallet s, userMintedCount s)"

text \<open>The four primary reads, in order, as the world would answer them after trace \<open>h\<close>.\<close>

definition primary_reads :: "env \<Rightarrow> event list \<Rightarrow> (js_error + uint256) list" where
  "primary_reads E h =
     [answer_uint E h call_totalSupply,
      answer_uint E (h @ [Request call_totalSupply]) call_maxSupply,
      answer_uint E (h @ [Request call_totalSupply, Request call_maxSupply]) call_mintPrice,
      answer_uint E (h @ [Request call_totalSupply, Request call_maxSupply, Request call_mintPrice])
        call_maxPerWallet]"

definition after_primary :: "event list \<Rightarrow> event list" where
  "after_primary h =
     h @ [Request call_totalSupply, Request call_maxSupply, Request call_mintPrice,
          Request call_maxPerWallet, Console Log ''Contract values - maxPerWallet:'']"

section \<open>Quantity editing\<close>

text \<open>
  The three controls of the quantity row.  A disabled button does not fire its
  \<^verbatim>\<open>onClick\<close>.  \<open>parsed\<close> is the result of \<^verbatim>\<open>parseInt(e.target.value)\<close>, \<open>None\<close> for
  \<^verbatim>\<open>NaN\<close>; \<^verbatim>\<open>parseInt(..) || 1\<close> replaces \<^verbatim>\<open>NaN\<close> and \<open>0\<close> by \<open>1\<close>.
\<close>

definition maxAllowed :: "app_state \<Rightarrow> int" where
  "maxAllowed s = min (contractMaxPerWallet s) (contractMaxPerWallet s - userMintedCount s)"

definition decrement_onClick :: "app_state \<Rightarrow> app_state" where
  "decrement_onClick s =
     (if mintQuantity s \<le> 1 then s
      else s\<lparr>mintQuantity := max 1 (mintQuantity s - 1)\<rparr>)"

definition increment_onClick :: "app_state \<Rightarrow> app_state" where
  "increment_onClick s =
     (if mintQuantity s \<ge> maxAllowed s then s
      else s\<lparr>mintQuantity :=
               min (contractMaxPerWallet s)
                   (min (contractMaxPerWallet s - userMintedCount s) (mintQuantity s + 1))\<rparr>)"

definition onChange :: "int option \<Rightarrow> app_state \<Rightarrow> app_state" where
  "onChange parsed s =
     (let val = (case parsed of None \<Rightarrow> 1 | Some v \<Rightarrow> if v = 0 then 1 else v)
      in s\<lparr>mintQuantity := min (maxAllowed s) (max 1 val)\<rparr>)"

datatype edit = Decrement | Increment | Change "int option"

fun apply_edit :: "app_state \<Rightarrow> edit \<Rightarrow> app_state" where
  "apply_edit s Decrement = decrement_onClick s"
| "apply_edit s Increment = increment_onClick s"
| "apply_edit s (Change parsed) = onChange parsed s"


section \<open>Wallet session and network guarantor\<close>

definition targetChainIdHex :: string where
  "targetChainIdHex = ''0x279F''"

definition monad_testnet :: "env \<Rightarrow> chain_params" where
  "monad_testnet E =
     \<lparr>chainId = targetChainIdHex, chainName = ''Monad Testnet'',
      currencyName = ''MON'', currencySymbol = ''MON'', currencyDecimals = 18,
      rpcUrls = [or_else (VITE_MONAD_RPC_URL E) ''https://testnet-rpc.monad.xyz''],
      blockExplorerUrls = [''https://testnet.monadexplorer.com'']\<rparr>"

text \<open>
  \<^verbatim>\<open>err?.code === 4902 || (typeof err?.message === "string" &&
  /Unrecognized chain ID/i.test(err.message))\<close>
\<close>

definition unrecognized_chain :: "js_error \<Rightarrow> bool" where
  "unrecognized_chain err =
     (err_code err = Some 4902 \<or>
      (case message err of None \<Rightarrow> False | Some m \<Rightarrow> test_i [''Unrecognized chain ID''] m))"

definition ensureMonadNetwork :: "env \<Rightarrow> unit io" where
  "ensureMonadNetwork E =
     try_catch
       (bind (ask (answer_string E) eth_chainId) (\<lambda>current.
          if current \<noteq> targetChainIdHex then
            try_catch
              (ask (answer_unit E) (wallet_switchEthereumChain targetChainIdHex))
              (\<lambda>switchErr.
                 if unrecognized_chain switchErr
                 then ask (answer_unit E) (wallet_addEthereumChain (monad_testnet E))
                 else throw switchErr)
          else ret ()))
       (\<lambda>e. seq (emit (Console Error ''ensureMonadNetwork error'')) (throw e))"

abbreviation switch_request :: event where
  "switch_request \<equiv> Request (wallet_switchEthereumChain targetChainIdHex)"

abbreviation add_request :: "env \<Rightarrow> event" where
  "add_request E \<equiv> Request (wallet_addEthereumChain (monad_testnet E))"

text \<open>\<^verbatim>\<open>accounts[0]\<close> of a possibly empty array.\<close>

definition first_account :: "string list \<Rightarrow> string option" where
  "first_account accounts = (case accounts of [] \<Rightarrow> None | a # _ \<Rightarrow> Some a)"

text \<open>
  \<^verbatim>\<open>connectWallet\<close> is re-created on every render; the \<^verbatim>\<open>refreshContractData\<close> it
  calls closes over the account of that render, i.e. the one on entry.
  \<^verbatim>\<open>console.error(e)\<close> has no label: its event carries the empty string.
\<close>

definition connectWallet :: "env \<Rightarrow> unit io" where
  "connectWallet E w =
     (if \<not> ethereum E then emit (Alert ''Install MetaMask'') w
      else
        try_catch
          (seq (ensureMonadNetwork E)
          (bind (ask (answer_accounts E) eth_requestAccounts) (\<lambda>accounts.
           seq (modify (\<lambda>s. s\<lparr>account := first_account accounts\<rparr>))
          (seq (modify (\<lambda>s. s\<lparr>status := ''Wallet connected''\<rparr>))
               (refreshContractData E (account (app w)))))))
          (\<lambda>e. seq (emit (Console Error []))
                   (modify (\<lambda>s. s\<lparr>status := ''Failed to connect wallet''\<rparr>)))
          w)"



section \<open>Mint orchestrator: mintNFT\<close>

definition plural :: "bool \<Rightarrow> string" where
  "plural b = (if b then ''s'' else [])"

text \<open>The body of the \<^verbatim>\<open>try\<close> in \<^verbatim>\<open>attemptMint\<close>; \<open>s\<close> is the render's state.\<close>

definition submit_once :: "env \<Rightarrow> app_state \<Rightarrow> nat \<Rightarrow> unit io" where
  "submit_once E s totalPrice =
     bind (ask (answer_unit E) (mint_send (mintQuantity s) totalPrice)) (\<lambda>tx.
     seq (modify (\<lambda>t. t\<lparr>status := ''Waiting for confirmation...''\<rparr>))
    (bind (ask (answer_unit E) tx_wait) (\<lambda>_.
     seq (modify (\<lambda>t. t\<lparr>status :=
            ''Minted '' @ int_toString (mintQuantity s) @ '' NFT'' @ plural (mintQuantity s > 1) @ ''!''\<rparr>))
         (refreshContractData E (account s)))))"

definition isRateLimited :: "js_error \<Rightarrow> bool" where
  "isRateLimited rpcErr =
     (err_code rpcErr = Some (- 32603) \<and>
      (case message rpcErr of
         None \<Rightarrow> False
       | Some m \<Rightarrow> test_i [''rate limit'', ''rate limited'', ''Request is being rate limited''] m))"

text \<open>\<^verbatim>\<open>500 * Math.pow(2, attempt)\<close> and \<^verbatim>\<open>Math.round(delayMs / 1000)\<close> (half rounds up).\<close>

definition delayMs :: "nat \<Rightarrow> nat" where
  "delayMs attempt = 500 * 2 ^ attempt"

definition round_seconds :: "nat \<Rightarrow> nat" where
  "round_seconds ms = (ms + 500) div 1000"

definition backoff :: "nat \<Rightarrow> world \<Rightarrow> world" where
  "backoff attempt w =
     w\<lparr>app := (app w)\<lparr>status := ''RPC rate limited, retrying in '' @
                   nat_toString (round_seconds (delayMs attempt)) @ ''s...''\<rparr>,
       trace := trace w @ [Timeout (delayMs attempt)]\<rparr>"

function attemptMint :: "env \<Rightarrow> app_state \<Rightarrow> nat \<Rightarrow> nat \<Rightarrow> unit io" where
  "attemptMint E s totalPrice attempt w =
     (case submit_once E s totalPrice w of
        (Inr u, w') \<Rightarrow> (Inr u, w')
      | (Inl err, w') \<Rightarrow>
          if isRateLimited err \<and> attempt < 3
          then attemptMint E s totalPrice (attempt + 1) (backoff attempt w')
          else (Inl err, w'))"
  by pat_completeness auto
termination
  by (relation "measure (\<lambda>(E, s, totalPrice, attempt, w). 3 - attempt)") auto

declare attemptMint.simps [simp del]

definition benignSimFailure :: "string \<Rightarrow> bool" where
  "benignSimFailure msg = test_i [''missing revert data'', ''CALL_EXCEPTION'', ''estimateGas''] msg"

definition simulation_message :: "js_error \<Rightarrow> string" where
  "simulation_message se = or_else (shortMessage se) (or_else (message se) ''Simulation failed'')"

definition simulate :: "env \<Rightarrow> int \<Rightarrow> nat \<Rightarrow> unit io" where
  "simulate E q totalPrice =
     try_catch
       (bind (ask (answer_unit E) (mint_staticCall q totalPrice)) (\<lambda>_.
          ask (answer_unit E) (mint_estimateGas q totalPrice)))
       (\<lambda>simErr.
          let msg = simulation_message simErr in
          if benignSimFailure msg then
            seq (emit (Console Warn ''Simulation failed, proceeding to send:''))
                (modify (\<lambda>t. t\<lparr>status := ''Simulation unavailable, submitting transaction...''\<rparr>))
          else
            seq (modify (\<lambda>t. t\<lparr>status := msg\<rparr>)) (throw simErr))"

text \<open>The body of the outer \<^verbatim>\<open>try\<close> of \<^verbatim>\<open>mintNFT\<close>; \<open>s\<close> is the render's state.\<close>

definition mint_try :: "env \<Rightarrow> app_state \<Rightarrow> unit io" where
  "mint_try E s =
     bind (ask (answer_unit E) getSigner) (\<lambda>signer.
     seq (getContract E)
    (bind (ask (answer_uint E) call_mintPrice) (\<lambda>price.
     let totalPrice = unat price * nat (mintQuantity s) in
     seq (simulate E (mintQuantity s) totalPrice)
         (attemptMint E s totalPrice 0))))"

text \<open>Everything from \<^verbatim>\<open>setMinting(true)\<close> on, with the \<^verbatim>\<open>catch\<close> and \<^verbatim>\<open>finally\<close>.\<close>

definition mint_transaction :: "env \<Rightarrow> app_state \<Rightarrow> unit io" where
  "mint_transaction E s =
     seq (modify (\<lambda>t. t\<lparr>minting := True\<rparr>))
    (seq (modify (\<lambda>t. t\<lparr>status := ''Preparing transaction...''\<rparr>))
    (try_finally
       (try_catch (mint_try E s)
          (\<lambda>e. seq (emit (Console Error []))
                   (modify (\<lambda>t. t\<lparr>status := or_else (message e) ''Mint failed''\<rparr>))))
       (\<lambda>w. w\<lparr>app := (app w)\<lparr>minting := False\<rparr>\<rparr>)))"

definition mintNFT :: "env \<Rightarrow> unit io" where
  "mintNFT E w =
     (let s = app w in
      if \<not> ethereum E then emit (Alert ''Install MetaMask'') w
      else
        let remainingAllowance = max 0 (contractMaxPerWallet s - userMintedCount s);
            remainingSupply = max 0 (maxSupply s - totalSupply s)
        in
        if remainingAllowance \<le> 0 then modify (\<lambda>t. t\<lparr>status := ''Max per wallet reached''\<rparr>) w
        else if mintQuantity s < 1 \<or> mintQuantity s > remainingAllowance then
          emit (Alert (''Quantity must be 1-'' @ int_toString remainingAllowance)) w
        else if mintQuantity s > remainingSupply then
          emit (Alert (''Only '' @ int_toString remainingSupply @ '' left in supply'')) w
        else
          seq (emit (Console Log ''Mint attempt - userMintedCount:''))
            (if userMintedCount s + mintQuantity s > contractMaxPerWallet s then
               emit (Alert (''You can only mint '' @ int_toString remainingAllowance @ '' more NFT'' @
                            plural (remainingAllowance \<noteq> 1) @ ''. You've already minted '' @
                            int_toString (userMintedCount s) @ ''.''))
             else mint_transaction E s)
            w)"

text \<open>The range the request must lie in, as the specification writes it.\<close>

definition quantity_in_range :: "app_state \<Rightarrow> bool" where
  "quantity_in_range s =
     (1 \<le> mintQuantity s \<and>
      mintQuantity s \<le> min (contractMaxPerWallet s - userMintedCount s) (maxSupply s - totalSupply s))"

text \<open>What a trace shows of the retry loop: the submissions and the backoff waits.\<close>

definition submissions :: "event list \<Rightarrow> request list" where
  "submissions evs = filter (\<lambda>r. case r of mint_send q v \<Rightarrow> True | _ \<Rightarrow> False) (requests evs)"

definition waits :: "event list \<Rightarrow> nat list" where
  "waits evs = concat (map (\<lambda>ev. case ev of Timeout d \<Rightarrow> [d] | _ \<Rightarrow> []) evs)"

text \<open>Every submission of \<open>r\<close> is refused with a rate-limit error, whatever came before.\<close>

definition always_rate_limited :: "env \<Rightarrow> request \<Rightarrow> bool" where
  "always_rate_limited E r =
     (\<forall>h. case answer_unit E h r of Inl e \<Rightarrow> isRateLimited e | Inr _ \<Rightarrow> False)"

text \<open>A computation only ever appends to the trace.\<close>

definition grows :: "'a io \<Rightarrow> bool" where
  "grows m = (\<forall>w. \<exists>evs. trace (snd (m w)) = trace w @ evs)"

section \<open>View state projector\<close>

subsection \<open>formatMon\<close>

text \<open>
  \<^verbatim>\<open>BigInt(string)\<close>: white space is trimmed, the empty string is \<open>0n\<close>, a decimal literal
  may carry a sign, a literal with prefix \<^verbatim>\<open>0x\<close>, \<^verbatim>\<open>0o\<close> or \<^verbatim>\<open>0b\<close> may not, and
  anything else is a \<^verbatim>\<open>SyntaxError\<close> (\<open>None\<close>).  Strings are byte strings; only the ASCII
  white space characters are trimmed.
\<close>

definition is_space :: "char \<Rightarrow> bool" where
  "is_space c = (c \<in> set [CHR 0x09, CHR 0x0A, CHR 0x0B, CHR 0x0C, CHR 0x0D, CHR 0x20])"

definition trim :: "string \<Rightarrow> string" where
  "trim s = rev (dropWhile is_space (rev (dropWhile is_space s)))"

definition digit_value :: "char \<Rightarrow> nat option" where
  "digit_value c = map_of (zip ''0123456789abcdefABCDEF'' ([0..<16] @ [10..<16])) c"

fun parse_digits :: "nat \<Rightarrow> nat \<Rightarrow> string \<Rightarrow> nat option" where
  "parse_digits b acc [] = Some acc"
| "parse_digits b acc (c # cs) =
     (case digit_value c of
        None \<Rightarrow> None
      | Some d \<Rightarrow> if d < b then parse_digits b (acc * b + d) cs else None)"

definition parse_nat :: "nat \<Rightarrow> string \<Rightarrow> nat option" where
  "parse_nat b s = (if s = [] then None else parse_digits b 0 s)"

definition BigInt :: "string \<Rightarrow> int option" where
  "BigInt str =
     (let t = trim str in
      case t of
        [] \<Rightarrow> Some 0
      | c # cs \<Rightarrow>
          if c = CHR ''0'' \<and> take 1 cs \<in> set [''x'', ''X''] then map_option int (parse_nat 16 (drop 1 cs))
          else if c = CHR ''0'' \<and> take 1 cs \<in> set [''o'', ''O''] then map_option int (parse_nat 8 (drop 1 cs))
          else if c = CHR ''0'' \<and> take 1 cs \<in> set [''b'', ''B''] then map_option int (parse_nat 2 (drop 1 cs))
          else if c = CHR ''-'' then map_option (\<lambda>n. - int n) (parse_nat 10 cs)
          else if c = CHR ''+'' then map_option int (parse_nat 10 cs)
          else map_option int (parse_nat 10 t))"

text \<open>BigInt division truncates towards zero; the remainder takes the sign of the dividend.\<close>

definition bigint_div :: "int \<Rightarrow> int \<Rightarrow> int" where
  "bigint_div a b = sgn a * sgn b * (\<bar>a\<bar> div \<bar>b\<bar>)"

definition bigint_mod :: "int \<Rightarrow> int \<Rightarrow> int" where
  "bigint_mod a b = sgn a * (\<bar>a\<bar> mod \<bar>b\<bar>)"

definition padStart :: "nat \<Rightarrow> char \<Rightarrow> string \<Rightarrow> string" where
  "padStart n c s = replicate (n - length s) c @ s"

text \<open>\<^verbatim>\<open>BigInt(1e18)\<close> is exactly \<open>10^18\<close>; the \<^verbatim>\<open>catch\<close> returns \<^verbatim>\<open>"0"\<close>.\<close>

definition formatMon :: "string \<Rightarrow> string" where
  "formatMon weiStr =
     (case BigInt weiStr of
        None \<Rightarrow> ''0''
      | Some bn \<Rightarrow>
          let whole = bigint_div bn (10 ^ 18);
              frac = bigint_mod bn (10 ^ 18);
              fracStr = take 4 (padStart 18 CHR ''0'' (int_toString frac))
          in int_toString whole @ ''.'' @ fracStr)"

text \<open>The \<open>i\<close>-th decimal digit after the point of \<open>w / 10^18\<close>, for \<open>1 \<le> i \<le> 18\<close>.\<close>

definition fractional_digit :: "nat \<Rightarrow> nat \<Rightarrow> nat" where
  "fractional_digit w i = w div 10 ^ (18 - i) mod 10"

text \<open>The last \<open>k\<close> decimal digits of \<open>f\<close>, most significant first.\<close>

fun fixed_digits :: "nat \<Rightarrow> nat \<Rightarrow> string" where
  "fixed_digits 0 f = []"
| "fixed_digits (Suc k) f = fixed_digits k (f div 10) @ [digit_char (f mod 10)]"

section \<open>Sample worlds\<close>

text \<open>A wallet and a contract that answer every request: price 1 MON, cap 2, nothing minted.\<close>

definition rpc_error :: "int \<Rightarrow> string \<Rightarrow> js_error" where
  "rpc_error c m = JsError (Some c) None (Some m)"

definition sample_uint :: "request \<Rightarrow> uint256" where
  "sample_uint r =
     (case r of
        call_totalSupply \<Rightarrow> 7
      | call_maxSupply \<Rightarrow> 500
      | call_mintPrice \<Rightarrow> 1000000000000000000
      | call_maxPerWallet \<Rightarrow> 2
      | call_mintedCount a \<Rightarrow> 1
      | call_balanceOf a \<Rightarrow> 3
      | _ \<Rightarrow> 0)"

definition sample_env :: env where
  "sample_env =
     \<lparr>ethereum = True, CONTRACT_ADDRESS = Some ''0xC0'', VITE_MONAD_RPC_URL = None,
      answer_unit = (\<lambda>h r. Inr ()),
      answer_uint = (\<lambda>h r. Inr (sample_uint r)),
      answer_string = (\<lambda>h r. Inr ''0x1''),
      answer_accounts = (\<lambda>h r. Inr [''0xA1''])\<rparr>"

definition fresh_world :: world where
  "fresh_world = \<lparr>app = initial_state, trace = []\<rparr>"

definition connected_world :: world where
  "connected_world = \<lparr>app = initial_state\<lparr>account := Some ''0xA1''\<rparr>, trace = []\<rparr>"

text \<open>The same world, with the node refusing some reads.\<close>

definition failing_reads :: "request list \<Rightarrow> env" where
  "failing_reads bad =
     sample_env\<lparr>answer_uint :=
       (\<lambda>h r. if r \<in> set bad then Inl (rpc_error (- 32000) ''execution reverted'')
              else Inr (sample_uint r))\<rparr>"

text \<open>A connected wallet that has used up its allowance of 2.\<close>

definition exhausted_world :: world where
  "exhausted_world =
     \<lparr>app = initial_state\<lparr>account := Some ''0xA1'', userMintedCount := 2\<rparr>, trace = []\<rparr>"

text \<open>A node that rate-limits every submission of the mint transaction.\<close>

definition rate_limited_env :: env where
  "rate_limited_env =
     sample_env\<lparr>answer_unit :=
       (\<lambda>h r. case r of
                 mint_send q v \<Rightarrow> Inl (rpc_error (- 32603) ''Request is being rate limited'')
               | _ \<Rightarrow> Inr ())\<rparr>"

text \<open>
  A contract whose dry run reverts, reported the way ethers v6 does: a short message and
  a long message that repeats it with details.
\<close>

definition revert_error :: js_error where
  "revert_error =
     JsError None (Some ''execution reverted'') (Some ''execution reverted (code=CALL_EXCEPTION)'')"

definition reverting_env :: env where
  "reverting_env =
     sample_env\<lparr>answer_unit :=
       (\<lambda>h r. case r of mint_staticCall q v \<Rightarrow> Inl revert_error | _ \<Rightarrow> Inr ())\<rparr>"

definition rate_limited_run :: world where
  "rate_limited_run = snd (mintNFT rate_limited_env connected_world)"

definition reverting_run :: world where
  "reverting_run = snd (mintNFT reverting_env connected_world)"

text \<open>A wallet on another chain that does not know the target network (EIP-3085 code 4902).\<close>

definition unknown_chain_env :: env where
  "unknown_chain_env =
     sample_env\<lparr>answer_unit :=
       (\<lambda>h r. case r of
                 wallet_switchEthereumChain c \<Rightarrow> Inl (rpc_error 4902 ''Unrecognized chain ID 0x279f'')
               | _ \<Rightarrow> Inr ())\<rparr>"

text \<open>A wallet on another chain whose user rejects the switch (EIP-1193 code 4001).\<close>

definition rejecting_env :: env where
  "rejecting_env =
     sample_env\<lparr>answer_unit :=
       (\<lambda>h r. case r of
                 wallet_switchEthereumChain c \<Rightarrow> Inl (rpc_error 4001 ''User rejected the request.'')
               | _ \<Rightarrow> Inr ())\<rparr>"

section \<open>Combinator laws\<close>

lemma bind_ret [simp]: "bind (ret x) f w = f x w"
  by (simp add: bind_def ret_def)

lemma bind_throw [simp]: "bind (throw e) f w = (Inl e, w)"
  by (simp add: bind_def throw_def)

lemma seq_emit [simp]: "seq (emit ev) k w = k (w\<lparr>trace := trace w @ [ev]\<rparr>)"
  by (simp add: seq_def bind_def emit_def)

lemma seq_modify [simp]: "seq (modify f) k w = k (w\<lparr>app := f (app w)\<rparr>)"
  by (simp add: seq_def bind_def modify_def)

lemma seq_ret [simp]: "seq (ret ()) k w = k w"
  by (simp add: seq_def)

lemma seq_throw [simp]: "seq (throw e) k w = (Inl e, w)"
  by (simp add: seq_def)

lemma bind_ask:
  "bind (ask answer r) f w =
     (case answer (trace w) r of
        Inl e \<Rightarrow> (Inl e, w\<lparr>trace := trace w @ [Request r]\<rparr>)
      | Inr x \<Rightarrow> f x (w\<lparr>trace := trace w @ [Request r]\<rparr>))"
  by (simp add: bind_def ask_def split: sum.splits)

lemma requests_append [simp]: "requests (xs @ ys) = requests xs @ requests ys"
  by (simp add: requests_def)

lemma requests_Nil [simp]: "requests [] = []"
  by (simp add: requests_def)

lemma requests_Cons [simp]:
  "requests (ev # evs) = (case ev of Request r \<Rightarrow> [r] | _ \<Rightarrow> []) @ requests evs"
  by (simp add: requests_def)

lemma try_catch_ret [simp]: "try_catch (ret x) h w = (Inr x, w)"
  by (simp add: try_catch_def ret_def)

lemma try_catch_ok: "fst (m w) = Inr x \<Longrightarrow> try_catch m h w = m w"
  by (cases "m w") (simp add: try_catch_def)

section \<open>Rounding to the nearest double\<close>

lemma two_powi_pos [simp]: "0 < (2::rat) powi e"
  by (simp add: power_int_def)

lemma two_powi_mono: "a \<le> b \<Longrightarrow> (2::rat) powi a \<le> 2 powi b"
  by (rule power_int_increasing) simp_all

lemma two_powi_less_cancel: "(2::rat) powi a < 2 powi b \<Longrightarrow> a < b"
  by (metis linorder_not_less two_powi_mono)

lemma two_powi_add: "(2::rat) powi (a + b) = 2 powi a * 2 powi b"
  by (simp add: power_int_add)

lemma two_powi_diff: "(2::rat) powi (a - b) = 2 powi a / 2 powi b"
  by (simp add: power_int_diff)

lemma ilog2_bounds:
  assumes "0 < q"
  shows "2 powi ilog2 q \<le> q" and "q < 2 powi (ilog2 q + 1)"
proof -
  obtain n d where nd: "quotient_of q = (n, d)" by (cases "quotient_of q")
  have d: "0 < d" using quotient_of_denom_pos [OF nd] .
  have q: "q = of_int n / of_int d" using quotient_of_div [OF nd] .
  have n: "0 < n" using assms d by (simp add: q zero_less_divide_iff)
  let ?e = "bitlen n - bitlen d"
  have bn: "1 \<le> bitlen n" "1 \<le> bitlen d"
    using n d by (simp_all add: bitlen_alt_def)
  have n1: "(2::rat) powi (bitlen n - 1) \<le> of_int n" and n2: "of_int n < (2::rat) powi bitlen n"
   and d1: "(2::rat) powi (bitlen d - 1) \<le> of_int d" and d2: "of_int d < (2::rat) powi bitlen d"
  proof -
    have "(2::int) ^ nat (bitlen n - 1) \<le> n" "n < 2 ^ nat (bitlen n)"
         "(2::int) ^ nat (bitlen d - 1) \<le> d" "d < 2 ^ nat (bitlen d)"
      using bitlen_bounds [OF n] bitlen_bounds [OF d] by simp_all
    then have "(of_int (2 ^ nat (bitlen n - 1)) :: rat) \<le> of_int n" "(of_int n :: rat) < of_int (2 ^ nat (bitlen n))"
         "(of_int (2 ^ nat (bitlen d - 1)) :: rat) \<le> of_int d" "(of_int d :: rat) < of_int (2 ^ nat (bitlen d))"
      by (simp_all only: of_int_le_iff of_int_less_iff)
    then show "(2::rat) powi (bitlen n - 1) \<le> of_int n" "of_int n < (2::rat) powi bitlen n"
       "(2::rat) powi (bitlen d - 1) \<le> of_int d" "of_int d < (2::rat) powi bitlen d"
      using bn by (simp_all add: power_int_def)
  qed
  have lo: "2 powi (?e - 1) \<le> q"
  proof -
    have "(2::rat) powi (?e - 1) = 2 powi (bitlen n - 1) / 2 powi bitlen d"
      by (simp flip: two_powi_diff) (simp add: algebra_simps)
    also have "\<dots> \<le> of_int n / of_int d"
      using n1 d2 d n by (intro frac_le) simp_all
    finally show ?thesis by (simp add: q)
  qed
  have hi: "q < 2 powi (?e + 1)"
  proof -
    have "q = of_int n / of_int d" by (rule q)
    also have "\<dots> < 2 powi bitlen n / 2 powi (bitlen d - 1)"
      using n2 d1 d n by (intro frac_less) simp_all
    also have "\<dots> = 2 powi (?e + 1)"
      by (simp flip: two_powi_diff) (simp add: algebra_simps)
    finally show ?thesis .
  qed
  have il: "ilog2 q = (if 2 powi ?e \<le> q then ?e else ?e - 1)"
    by (simp add: ilog2_def nd Let_def)
  show "2 powi ilog2 q \<le> q" using lo by (simp add: il)
  show "q < 2 powi (ilog2 q + 1)" using hi by (auto simp add: il not_le)
qed

lemma ilog2_unique:
  assumes "2 powi e \<le> q" "q < 2 powi (e + 1)"
  shows "ilog2 q = e"
proof -
  have q: "0 < q" using assms(1) two_powi_pos [of e] by linarith
  have "(2::rat) powi e < 2 powi (ilog2 q + 1)" using assms(1) ilog2_bounds(2) [OF q] by linarith
  moreover have "(2::rat) powi ilog2 q < 2 powi (e + 1)" using assms(2) ilog2_bounds(1) [OF q] by linarith
  ultimately show ?thesis
    using two_powi_less_cancel [of e "ilog2 q + 1"] two_powi_less_cancel [of "ilog2 q" "e + 1"] by linarith
qed


lemma rhe_cases:
  "round_half_even x = \<lfloor>x\<rfloor> \<or> round_half_even x = \<lfloor>x\<rfloor> + 1"
  by (simp add: round_half_even_def Let_def)


lemma rhe_of_int [simp]: "round_half_even (of_int n) = n"
  by (simp add: round_half_even_def)

lemma rhe_mono:
  assumes "x \<le> y"
  shows "round_half_even x \<le> round_half_even y"
proof (cases "\<lfloor>x\<rfloor> = \<lfloor>y\<rfloor>")
  case True
  then show ?thesis using assms by (auto simp add: round_half_even_def Let_def)
next
  case False
  then have "\<lfloor>x\<rfloor> + 1 \<le> \<lfloor>y\<rfloor>" using floor_mono [OF assms] by linarith
  moreover have "round_half_even x \<le> \<lfloor>x\<rfloor> + 1" using rhe_cases [of x] by auto
  moreover have "\<lfloor>y\<rfloor> \<le> round_half_even y" using rhe_cases [of y] by auto
  ultimately show ?thesis by linarith
qed


lemma rhe_nonneg: "0 \<le> x \<Longrightarrow> 0 \<le> round_half_even x"
  using rhe_mono [of 0 x] rhe_of_int [of 0] by simp


lemma rhe_le_int: "x \<le> of_int n \<Longrightarrow> round_half_even x \<le> n"
  using rhe_mono [of x "of_int n"] by simp



lemma nearest_upper:
  assumes "0 < q"
  shows "nearest_double q \<le> 2 powi (max (ilog2 q + 1) (ulp_exponent q))"
proof -
  let ?u = "ulp_exponent q"
  define k where "k = nat (max (ilog2 q + 1 - ?u) 0)"
  have k: "int k = max (ilog2 q + 1) ?u - ?u" by (simp add: k_def max_def)
  have "q / 2 powi ?u \<le> 2 powi (ilog2 q + 1) / 2 powi ?u"
    using ilog2_bounds(2) [OF assms] by (simp add: divide_right_mono)
  also have "\<dots> = 2 powi (ilog2 q + 1 - ?u)" by (simp add: two_powi_diff)
  also have "\<dots> \<le> 2 powi (int k)" by (rule two_powi_mono) (simp add: k_def)
  also have "\<dots> = of_int (2 ^ k)" by simp
  finally have "round_half_even (q / 2 powi ?u) \<le> 2 ^ k" by (rule rhe_le_int)
  then have "(of_int (round_half_even (q / 2 powi ?u)) :: rat) \<le> of_int (2 ^ k)"
    by (simp only: of_int_le_iff)
  then have "nearest_double q \<le> of_int (2 ^ k) * 2 powi ?u"
    unfolding nearest_double_def by (rule mult_right_mono) simp
  also have "of_int (2 ^ k) * 2 powi ?u = (2::rat) powi (int k + ?u)"
    by (simp add: two_powi_add)
  also have "int k + ?u = max (ilog2 q + 1) ?u" by (simp add: k)
  finally show ?thesis .
qed


lemma to_double_not_NaN [simp]: "to_double q \<noteq> NaN"
  by (simp add: to_double_def)




lemma to_double_finite:
  assumes "0 < q" "q < 2 powi 1023"
  shows "to_double q = Finite (nearest_double q)"
proof -
  have "(2::rat) powi ilog2 q < 2 powi 1023" using ilog2_bounds(1) [OF assms(1)] assms(2) by linarith
  then have e: "ilog2 q < 1023" by (rule two_powi_less_cancel)
  then have "max (ilog2 q + 1) (ulp_exponent q) \<le> 1023" by (simp add: ulp_exponent_def)
  then have "nearest_double q \<le> 2 powi 1023"
    using nearest_upper [OF assms(1)] two_powi_mono order_trans by blast
  moreover have "(2::rat) powi 1023 < 2 powi 1024" by (rule power_int_strict_increasing) simp_all
  ultimately show ?thesis using assms(1) by (simp add: to_double_def)
qed

lemma ilog2_nonneg: "1 \<le> q \<Longrightarrow> 0 \<le> ilog2 q"
proof -
  assume q: "1 \<le> q"
  then have "(2::rat) powi 0 < 2 powi (ilog2 q + 1)" using ilog2_bounds(2) [of q] by simp
  then show ?thesis using two_powi_less_cancel [of 0 "ilog2 q + 1"] by simp
qed

lemma nearest_double_exact:
  assumes "0 < i" "i < 2 ^ 53"
  shows "nearest_double (of_int i) = of_int i"
proof -
  let ?q = "of_int i :: rat"
  let ?e = "ilog2 ?q"
  have q: "0 < ?q" "1 \<le> ?q" using assms(1) by simp_all
  have e0: "0 \<le> ?e" by (rule ilog2_nonneg [OF q(2)])
  have "?q < of_int (2 ^ 53)" using assms(2) by (simp only: of_int_less_iff)
  then have "?q < 2 powi 53" by simp
  then have "(2::rat) powi ?e < 2 powi 53" using ilog2_bounds(1) [OF q(1)] by linarith
  then have e1: "?e < 53" by (rule two_powi_less_cancel)
  have u: "ulp_exponent ?q = ?e - 52" using e0 by (simp add: ulp_exponent_def)
  define k where "k = nat (52 - ?e)"
  have k: "int k = 52 - ?e" using e1 by (simp add: k_def)
  have p: "(2::rat) powi (?e - 52) = 1 / 2 ^ k"
  proof -
    have "?e - 52 = - int k" by (simp add: k)
    then show ?thesis by (simp add: power_int_minus_divide)
  qed
  have "?q / 2 powi (?e - 52) = of_int (i * 2 ^ k)" by (simp add: p)
  then have "round_half_even (?q / 2 powi (?e - 52)) = i * 2 ^ k" by (simp only: rhe_of_int)
  then show ?thesis by (simp add: nearest_double_def u p)
qed

lemma js_number_exact:
  assumes "0 \<le> i" "i < 2 ^ 53"
  shows "js_number i = Finite (of_int i)"
proof (cases "i = 0")
  case True
  then show ?thesis by (simp add: js_number_def to_double_def)
next
  case False
  then have i: "0 < i" using assms by simp
  have "(of_int i :: rat) < of_int (2 ^ 53)" using assms(2) by (simp only: of_int_less_iff)
  also have "\<dots> = 2 powi 53" by simp
  also have "\<dots> < (2::rat) powi 1023" by (rule power_int_strict_increasing) simp_all
  finally have "to_double (of_int i) = Finite (nearest_double (of_int i))"
    using i by (intro to_double_finite) simp_all
  then show ?thesis by (simp add: js_number_def nearest_double_exact [OF i assms(2)])
qed


subsection \<open>Number of a uint256\<close>

lemma js_number_integer:
  assumes "0 \<le> i" "i < 2 ^ 256"
  shows "\<exists>k. js_number i = Finite (of_int k) \<and> 0 \<le> k"
proof (cases "i < 2 ^ 53")
  case True
  then show ?thesis using js_number_exact [OF assms(1)] assms(1) by blast
next
  case False
  let ?q = "of_int i :: rat"
  have i: "0 < i" using False by (smt (verit) zero_less_power)
  have q: "0 < ?q" using i by simp
  have "(of_int (2 ^ 53) :: rat) \<le> ?q" using False by (simp only: of_int_le_iff)
  then have "(2::rat) powi 53 < 2 powi (ilog2 ?q + 1)" using ilog2_bounds(2) [OF q] by simp
  then have e: "53 \<le> ilog2 ?q" using two_powi_less_cancel [of 53 "ilog2 ?q + 1"] by simp
  then have u: "ulp_exponent ?q = ilog2 ?q - 52" by (simp add: ulp_exponent_def)
  define k where "k = nat (ilog2 ?q - 52)"
  have k: "ilog2 ?q - 52 = int k" using e by (simp add: k_def)
  have n: "nearest_double ?q = of_int (round_half_even (?q / 2 ^ k) * 2 ^ k)"
    by (simp add: nearest_double_def u k)
  have "?q < of_int (2 ^ 256)" using assms(2) by (simp only: of_int_less_iff)
  also have "\<dots> = 2 powi 256" by simp
  also have "\<dots> < (2::rat) powi 1023" by (rule power_int_strict_increasing) simp_all
  finally have "to_double ?q = Finite (nearest_double ?q)" by (rule to_double_finite [OF q])
  moreover have "0 \<le> round_half_even (?q / 2 ^ k) * 2 ^ k" using q by (simp add: rhe_nonneg)
  ultimately show ?thesis unfolding js_number_def n by blast
qed

lemma uint256_range: "0 \<le> uint (x :: uint256) \<and> uint x < 2 ^ 256"
  using uint_bounded [of x] by simp

lemma js_number_uint256: "js_number (uint (x :: uint256)) = Finite (of_int (Number x))"
proof -
  obtain k where "js_number (uint x) = Finite (of_int k)"
    using js_number_integer uint256_range by blast
  then show ?thesis by (simp add: Number_def)
qed

lemma Number_exact:
  assumes "uint (x :: uint256) < 2 ^ 53"
  shows "Number x = uint x"
proof -
  have "js_number (uint x) = Finite (of_int (uint x))"
    by (rule js_number_exact [OF _ assms]) simp
  then show ?thesis unfolding Number_def by (simp only: jsnum.case floor_of_int)
qed

lemma Number_nonneg: "0 \<le> Number x"
proof -
  obtain k where "js_number (uint x) = Finite (of_int k)" "0 \<le> k"
    using js_number_integer uint256_range by blast
  then show ?thesis by (simp add: Number_def)
qed

lemma Number_small [simp]:
  "Number 0 = 0" "Number 1 = 1" "Number 2 = 2" "Number 3 = 3" "Number 5 = 5" "Number 7 = 7"
  "Number 500 = 500"
  by (simp_all add: Number_exact)

text \<open>Above \<open>2^53\<close> the conversion rounds: \<open>2^53 + 1\<close> lies half way and goes to the even neighbour.\<close>

lemma Number_rounds: "Number 9007199254740993 = 9007199254740992"
proof -
  have e: "ilog2 9007199254740993 = 53"
    by (rule ilog2_unique) simp_all
  have f: "\<lfloor>(9007199254740993 / 2 :: rat)\<rfloor> = 4503599627370496"
    by (simp add: floor_eq_iff)
  have "round_half_even (9007199254740993 / 2) = 4503599627370496"
    by (simp add: round_half_even_def Let_def f)
  then have "nearest_double 9007199254740993 = 9007199254740992"
    by (simp add: nearest_double_def ulp_exponent_def e)
  moreover have "(9007199254740992 :: rat) < 2 powi 1024" by simp
  ultimately have "js_number 9007199254740993 = Finite 9007199254740992"
    by (simp add: js_number_def to_double_def)
  then show ?thesis by (simp add: Number_def)
qed


section \<open>Properties of refreshContractData\<close>

lemma read_user_minted_ok: "fst (read_user_minted E a w) = Inr ()"
  by (simp add: read_user_minted_def try_catch_def bind_ask modify_def seq_def bind_def emit_def
      split: sum.splits prod.splits)

lemma read_user_minted_value:
  "userMintedCount (app (snd (read_user_minted E a w))) =
     (case answer_uint E (trace w) (call_mintedCount a) of
        Inr n \<Rightarrow> Number n
      | Inl _ \<Rightarrow> (case answer_uint E (trace w @ [Request (call_mintedCount a)]) (call_balanceOf a) of
                   Inr b \<Rightarrow> Number b | Inl _ \<Rightarrow> 0))"
  by (simp add: read_user_minted_def try_catch_def bind_ask modify_def split: sum.splits)

lemma refresh_ok: "fst (refreshContractData E acct w) = Inr ()"
  by (simp add: refreshContractData_def refresh_body_def getContract_def try_catch_def bind_ask
      read_user_minted_ok ret_def emit_def
      split: sum.splits prod.splits option.splits)

lemma refresh_retains:
  assumes "\<not> ethereum E \<or> list_ex isl (primary_reads E (trace w))"
  shows "app (snd (refreshContractData E acct w)) = app w"
  using assms
  by (auto simp add: refreshContractData_def refresh_body_def getContract_def try_catch_def bind_ask
      primary_reads_def ret_def emit_def throw_def
      split: sum.splits prod.splits option.splits)

lemma refresh_body_reaches:
  assumes "truthy (CONTRACT_ADDRESS E)" "list_all (\<lambda>r. \<not> isl r) (primary_reads E (trace w))"
     "a \<noteq> []"
  shows "\<exists>s'. refresh_body E (Some a) w =
               read_user_minted E a \<lparr>app = s', trace = after_primary (trace w)\<rparr>"
proof -
  obtain n1 n2 n3 n4 where
    r: "answer_uint E (trace w) call_totalSupply = Inr n1"
       "answer_uint E (trace w @ [Request call_totalSupply]) call_maxSupply = Inr n2"
       "answer_uint E (trace w @ [Request call_totalSupply, Request call_maxSupply]) call_mintPrice = Inr n3"
       "answer_uint E (trace w @ [Request call_totalSupply, Request call_maxSupply, Request call_mintPrice])
          call_maxPerWallet = Inr n4"
    using assms(2) by (auto simp: primary_reads_def isl_def split: sum.splits) (metis sum.exhaust)
  show ?thesis
    using r
    by (cases w) (simp add: refresh_body_def getContract_def assms bind_ask after_primary_def, blast)
qed

text \<open>
  \<^bold>\<open>C5.\<close>  \<^verbatim>\<open>refreshContractData\<close> never throws to its caller (its outcome is always a
  normal return), and when \<^verbatim>\<open>window.ethereum\<close> is absent or one of the four primary reads
  (\<^verbatim>\<open>totalSupply\<close>, \<^verbatim>\<open>maxSupply\<close>, \<^verbatim>\<open>mintPrice\<close>, \<^verbatim>\<open>maxPerWallet\<close>) fails, the five
  snapshot cells keep their prior values.
\<close>

theorem refreshContractData_never_throws_and_retains:
  "fst (refreshContractData E acct w) = Inr () \<and>
   (\<not> ethereum E \<or> list_ex isl (primary_reads E (trace w)) \<longrightarrow>
      snapshot (app (snd (refreshContractData E acct w))) = snapshot (app w))"
  using refresh_ok refresh_retains by metis

theorem refreshContractData_never_throws_and_retains_witness:
  "list_ex isl (primary_reads (failing_reads [call_mintPrice]) (trace connected_world)) \<and>
   fst (refreshContractData (failing_reads [call_mintPrice]) (Some ''0xA1'') connected_world) = Inr () \<and>
   snapshot (app (snd (refreshContractData (failing_reads [call_mintPrice]) (Some ''0xA1'') connected_world)))
     = snapshot (app connected_world)"
proof -
  have h: "list_ex isl (primary_reads (failing_reads [call_mintPrice]) (trace connected_world))"
    by (simp add: primary_reads_def failing_reads_def sample_env_def)
  show ?thesis
    using h refreshContractData_never_throws_and_retains
      [of "failing_reads [call_mintPrice]" "Some ''0xA1''" connected_world]
    by simp
qed

text \<open>The minted-count ladder, as the world would answer it after trace \<open>h\<close>.\<close>

lemma refresh_user_count:
  assumes "ethereum E" "truthy (CONTRACT_ADDRESS E)"
    "list_all (\<lambda>r. \<not> isl r) (primary_reads E (trace w))" "a \<noteq> []"
  shows "userMintedCount (app (snd (refreshContractData E (Some a) w))) =
       (case answer_uint E (after_primary (trace w)) (call_mintedCount a) of
          Inr n \<Rightarrow> Number n
        | Inl _ \<Rightarrow>
           (case answer_uint E (after_primary (trace w) @ [Request (call_mintedCount a)]) (call_balanceOf a) of
              Inr b \<Rightarrow> Number b
            | Inl _ \<Rightarrow> 0))"
proof -
  obtain s' where b: "refresh_body E (Some a) w =
      read_user_minted E a \<lparr>app = s', trace = after_primary (trace w)\<rparr>"
    using refresh_body_reaches [OF assms(2,3,4)] by blast
  have "refreshContractData E (Some a) w =
      read_user_minted E a \<lparr>app = s', trace = after_primary (trace w)\<rparr>"
    using assms(1) by (simp add: refreshContractData_def try_catch_ok [where x="()"] b read_user_minted_ok)
  then show ?thesis
    by (simp add: read_user_minted_value split: sum.splits)
qed

lemma refresh_keeps_user_count:
  assumes "\<not> (ethereum E \<and> truthy (CONTRACT_ADDRESS E) \<and>
              list_all (\<lambda>r. \<not> isl r) (primary_reads E (trace w)) \<and> truthy acct)"
  shows "userMintedCount (app (snd (refreshContractData E acct w))) = userMintedCount (app w)"
  using assms
  by (auto simp add: refreshContractData_def refresh_body_def getContract_def try_catch_def bind_ask
      primary_reads_def ret_def emit_def throw_def truthy_def
      split: sum.splits prod.splits option.splits)


lemma failing_reads_simps:
  "ethereum (failing_reads bad)" "CONTRACT_ADDRESS (failing_reads bad) = Some ''0xC0''"
  "answer_uint (failing_reads bad) h r =
     (if r \<in> set bad then Inl (rpc_error (- 32000) ''execution reverted'') else Inr (sample_uint r))"
  by (simp_all add: failing_reads_def sample_env_def)

lemma sample_uint_simps:
  "sample_uint call_totalSupply = 7" "sample_uint call_maxSupply = 500"
  "sample_uint call_mintPrice = 1000000000000000000" "sample_uint call_maxPerWallet = 2"
  "sample_uint (call_mintedCount a) = 1" "sample_uint (call_balanceOf a) = 3"
  by (simp_all add: sample_uint_def)

lemma sample_worlds_simps:
  "trace fresh_world = []" "app fresh_world = initial_state"
  "trace connected_world = []" "app connected_world = initial_state\<lparr>account := Some ''0xA1''\<rparr>"
  "trace exhausted_world = []"
  "app exhausted_world = initial_state\<lparr>account := Some ''0xA1'', userMintedCount := 2\<rparr>"
  by (simp_all add: fresh_world_def connected_world_def exhausted_world_def)

text \<open>
  \<^bold>\<open>C6, as stated, fails.\<close>  The refresh runs for the non-null account \<^verbatim>\<open>0xA1\<close> and
  \<^verbatim>\<open>mintedCount(0xA1)\<close> would answer \<open>1\<close>, but the \<^verbatim>\<open>mintPrice\<close> read fails first: the
  cell keeps its prior value \<open>2\<close>, neither the contract's count nor \<open>0\<close>.
\<close>

theorem refreshContractData_keeps_count_when_a_primary_read_fails:
  "answer_uint (failing_reads [call_mintPrice]) (after_primary (trace exhausted_world))
     (call_mintedCount ''0xA1'') = Inr 1 \<and>
   userMintedCount (app (snd (refreshContractData (failing_reads [call_mintPrice]) (Some ''0xA1'')
     exhausted_world))) = 2"
proof -
  have "list_ex isl (primary_reads (failing_reads [call_mintPrice]) (trace exhausted_world))"
    by (simp add: primary_reads_def failing_reads_simps)
  then have "app (snd (refreshContractData (failing_reads [call_mintPrice]) (Some ''0xA1'') exhausted_world))
      = app exhausted_world"
    by (intro refresh_retains) simp
  then show ?thesis
    by (simp add: failing_reads_simps sample_uint_simps sample_worlds_simps initial_state_def)
qed

text \<open>
  \<^bold>\<open>C6, amended.\<close>  A refresh for a non-null account never fails.  If it reaches the
  minted-count step, that is the provider is present, the contract address is configured,
  the four primary reads succeed and the account is not the empty string, the resulting
  \<^verbatim>\<open>userMintedCount\<close> is \<^verbatim>\<open>Number(mintedCount(account))\<close> if that read succeeds, otherwise
  \<^verbatim>\<open>Number(balanceOf(account))\<close> if that read succeeds, otherwise \<open>0\<close>; \<^verbatim>\<open>Number\<close> is the
  value itself below \<open>2^53\<close>.  In every other run the cell keeps its prior value.
\<close>

theorem refreshContractData_userMintedCount:
  "fst (refreshContractData E (Some a) w) = Inr () \<and>
   userMintedCount (app (snd (refreshContractData E (Some a) w))) =
     (if ethereum E \<and> truthy (CONTRACT_ADDRESS E) \<and>
         list_all (\<lambda>r. \<not> isl r) (primary_reads E (trace w)) \<and> a \<noteq> []
      then (case answer_uint E (after_primary (trace w)) (call_mintedCount a) of
              Inr n \<Rightarrow> Number n
            | Inl _ \<Rightarrow>
               (case answer_uint E (after_primary (trace w) @ [Request (call_mintedCount a)])
                       (call_balanceOf a) of
                  Inr b \<Rightarrow> Number b
                | Inl _ \<Rightarrow> 0))
      else userMintedCount (app w)) \<and>
   (\<forall>x. uint x < 2 ^ 53 \<longrightarrow> Number x = uint x)"
proof (intro conjI allI impI)
  show "fst (refreshContractData E (Some a) w) = Inr ()" by (rule refresh_ok)
  show "userMintedCount (app (snd (refreshContractData E (Some a) w))) =
     (if ethereum E \<and> truthy (CONTRACT_ADDRESS E) \<and>
         list_all (\<lambda>r. \<not> isl r) (primary_reads E (trace w)) \<and> a \<noteq> []
      then (case answer_uint E (after_primary (trace w)) (call_mintedCount a) of
              Inr n \<Rightarrow> Number n
            | Inl _ \<Rightarrow>
               (case answer_uint E (after_primary (trace w) @ [Request (call_mintedCount a)])
                       (call_balanceOf a) of
                  Inr b \<Rightarrow> Number b
                | Inl _ \<Rightarrow> 0))
      else userMintedCount (app w))"
  proof (cases "ethereum E \<and> truthy (CONTRACT_ADDRESS E) \<and>
         list_all (\<lambda>r. \<not> isl r) (primary_reads E (trace w)) \<and> a \<noteq> []")
    case True
    then show ?thesis using refresh_user_count [of E w a] by simp
  next
    case False
    then have "\<not> (ethereum E \<and> truthy (CONTRACT_ADDRESS E) \<and>
              list_all (\<lambda>r. \<not> isl r) (primary_reads E (trace w)) \<and> truthy (Some a))"
      by (simp add: truthy_def)
    then have "userMintedCount (app (snd (refreshContractData E (Some a) w))) = userMintedCount (app w)"
      by (rule refresh_keeps_user_count)
    then show ?thesis by (simp only: False if_False)
  qed
  fix x :: uint256
  assume "uint x < 2 ^ 53"
  then show "Number x = uint x" by (rule Number_exact)
qed

theorem refreshContractData_userMintedCount_witness:
  "ethereum (failing_reads [call_mintedCount ''0xA1'']) \<and>
   truthy (CONTRACT_ADDRESS (failing_reads [call_mintedCount ''0xA1''])) \<and>
   list_all (\<lambda>r. \<not> isl r)
     (primary_reads (failing_reads [call_mintedCount ''0xA1'']) (trace connected_world)) \<and>
   ''0xA1'' \<noteq> [] \<and> uint (3 :: uint256) < 2 ^ 53 \<and>
   fst (refreshContractData (failing_reads [call_mintedCount ''0xA1'']) (Some ''0xA1'') connected_world)
     = Inr () \<and>
   userMintedCount (app (snd (refreshContractData (failing_reads [call_mintedCount ''0xA1''])
       (Some ''0xA1'') connected_world))) = 3"
proof -
  let ?E = "failing_reads [call_mintedCount ''0xA1'']"
  have h1: "ethereum ?E" and h2: "truthy (CONTRACT_ADDRESS ?E)"
    by (simp_all add: failing_reads_simps truthy_def)
  have h3: "list_all (\<lambda>r. \<not> isl r) (primary_reads ?E (trace connected_world))"
    by (simp add: failing_reads_simps primary_reads_def)
  show ?thesis
    using h1 h2 h3 refreshContractData_userMintedCount [of ?E "''0xA1''" connected_world]
    by (simp add: failing_reads_simps sample_uint_simps)
qed







section \<open>Properties of the quantity controls\<close>

lemma edit_frame [simp]:
  "contractMaxPerWallet (apply_edit s e) = contractMaxPerWallet s"
  "userMintedCount (apply_edit s e) = userMintedCount s"
  by (cases e; simp add: decrement_onClick_def increment_onClick_def onChange_def Let_def)+

lemma edit_maxAllowed [simp]: "maxAllowed (apply_edit s e) = maxAllowed s"
  by (simp add: maxAllowed_def)








section \<open>Properties of mintNFT\<close>

subsection \<open>Validation\<close>





subsection \<open>The stages of a mint\<close>

lemma mintNFT_valid:
  assumes "ethereum E" "quantity_in_range (app w)"
  shows "mintNFT E w =
     mint_transaction E (app w) (w\<lparr>trace := trace w @ [Console Log ''Mint attempt - userMintedCount:'']\<rparr>)"
  using assms by (simp add: mintNFT_def quantity_in_range_def Let_def)

lemma mint_transaction_caught:
  assumes "mint_try E s (w\<lparr>app := (app w)\<lparr>minting := True, status := ''Preparing transaction...''\<rparr>\<rparr>)
             = (Inl e, w')"
  shows "mint_transaction E s w =
     (Inr (), \<lparr>app = (app w')\<lparr>status := or_else (message e) ''Mint failed'', minting := False\<rparr>,
               trace = trace w' @ [Console Error []]\<rparr>)"
  using assms by (simp add: mint_transaction_def try_finally_def try_catch_def modify_def)

lemma mint_transaction_done:
  assumes "mint_try E s (w\<lparr>app := (app w)\<lparr>minting := True, status := ''Preparing transaction...''\<rparr>\<rparr>)
             = (Inr (), w')"
  shows "mint_transaction E s w = (Inr (), w'\<lparr>app := (app w')\<lparr>minting := False\<rparr>\<rparr>)"
  using assms by (simp add: mint_transaction_def try_finally_def try_catch_def modify_def)

lemma mint_try_reaches_simulation:
  assumes "answer_unit E (trace w) getSigner = Inr ()" "truthy (CONTRACT_ADDRESS E)"
    "answer_uint E (trace w @ [Request getSigner]) call_mintPrice = Inr price"
  shows "mint_try E s w =
     seq (simulate E (mintQuantity s) (unat price * nat (mintQuantity s)))
         (attemptMint E s (unat price * nat (mintQuantity s)) 0)
       (w\<lparr>trace := trace w @ [Request getSigner, Request call_mintPrice]\<rparr>)"
  using assms by (simp add: mint_try_def bind_ask getContract_def Let_def)

lemma simulate_passes:
  assumes "answer_unit E (trace w) (mint_staticCall q p) = Inr ()"
     "answer_unit E (trace w @ [Request (mint_staticCall q p)]) (mint_estimateGas q p) = Inr ()"
  shows "simulate E q p w =
     (Inr (), w\<lparr>trace := trace w @ [Request (mint_staticCall q p), Request (mint_estimateGas q p)]\<rparr>)"
  using assms by (simp add: simulate_def try_catch_def bind_ask ask_def)

text \<open>The failure of a pre-flight simulation: which call failed, and with what.\<close>

lemma simulate_fails:
  assumes "answer_unit E (trace w) (mint_staticCall q p) = Inl simErr"
  shows "simulate E q p w =
     (if benignSimFailure (simulation_message simErr)
      then (Inr (), \<lparr>app = (app w)\<lparr>status := ''Simulation unavailable, submitting transaction...''\<rparr>,
                     trace = trace w @ [Request (mint_staticCall q p),
                                        Console Warn ''Simulation failed, proceeding to send:'']\<rparr>)
      else (Inl simErr, \<lparr>app = (app w)\<lparr>status := simulation_message simErr\<rparr>,
                         trace = trace w @ [Request (mint_staticCall q p)]\<rparr>))"
  using assms by (cases w) (simp add: simulate_def try_catch_def Let_def modify_def throw_def seq_def bind_def ask_def emit_def)

lemma simulate_fails_gas:
  assumes "answer_unit E (trace w) (mint_staticCall q p) = Inr ()"
    "answer_unit E (trace w @ [Request (mint_staticCall q p)]) (mint_estimateGas q p) = Inl simErr"
  shows "simulate E q p w =
     (if benignSimFailure (simulation_message simErr)
      then (Inr (), \<lparr>app = (app w)\<lparr>status := ''Simulation unavailable, submitting transaction...''\<rparr>,
                     trace = trace w @ [Request (mint_staticCall q p), Request (mint_estimateGas q p),
                                        Console Warn ''Simulation failed, proceeding to send:'']\<rparr>)
      else (Inl simErr, \<lparr>app = (app w)\<lparr>status := simulation_message simErr\<rparr>,
                         trace = trace w @ [Request (mint_staticCall q p), Request (mint_estimateGas q p)]\<rparr>))"
  using assms by (cases w) (simp add: simulate_def try_catch_def Let_def modify_def throw_def seq_def bind_def ask_def emit_def)


subsection \<open>Rate-limit retries\<close>

lemma submit_refused:
  assumes "always_rate_limited E (mint_send (mintQuantity s) p)"
  shows "\<exists>e. isRateLimited e \<and> answer_unit E (trace w) (mint_send (mintQuantity s) p) = Inl e \<and>
     submit_once E s p w = (Inl e, w\<lparr>trace := trace w @ [Request (mint_send (mintQuantity s) p)]\<rparr>)"
proof -
  have "case answer_unit E (trace w) (mint_send (mintQuantity s) p) of Inl e \<Rightarrow> isRateLimited e | Inr _ \<Rightarrow> False"
    using assms unfolding always_rate_limited_def by blast
  then show ?thesis
    by (auto simp add: submit_once_def bind_ask split: sum.splits)
qed

lemma attemptMint_retry:
  assumes "always_rate_limited E (mint_send (mintQuantity s) p)" "attempt < 3"
  shows "attemptMint E s p attempt w =
     attemptMint E s p (attempt + 1)
       (backoff attempt (w\<lparr>trace := trace w @ [Request (mint_send (mintQuantity s) p)]\<rparr>))"
  using submit_refused [OF assms(1), of w] assms(2)
  by (subst attemptMint.simps) auto

lemma attemptMint_give_up:
  assumes "always_rate_limited E (mint_send (mintQuantity s) p)"
  shows "\<exists>e. isRateLimited e \<and> answer_unit E (trace w) (mint_send (mintQuantity s) p) = Inl e \<and>
     attemptMint E s p 3 w =
     (Inl e, w\<lparr>trace := trace w @ [Request (mint_send (mintQuantity s) p)]\<rparr>)"
  using submit_refused [OF assms(1), of w]
  by (subst attemptMint.simps) auto

lemma attemptMint_rate_limited:
  assumes "always_rate_limited E (mint_send (mintQuantity s) p)"
  shows "\<exists>e. isRateLimited e \<and>
     answer_unit E (trace w @
        [Request (mint_send (mintQuantity s) p), Timeout 500,
         Request (mint_send (mintQuantity s) p), Timeout 1000,
         Request (mint_send (mintQuantity s) p), Timeout 2000]) (mint_send (mintQuantity s) p) = Inl e \<and>
     attemptMint E s p 0 w =
     (Inl e, 
      \<lparr>app = (app w)\<lparr>status := ''RPC rate limited, retrying in 2s...''\<rparr>,
       trace = trace w @
        [Request (mint_send (mintQuantity s) p), Timeout 500,
         Request (mint_send (mintQuantity s) p), Timeout 1000,
         Request (mint_send (mintQuantity s) p), Timeout 2000,
         Request (mint_send (mintQuantity s) p)]\<rparr>)"
proof -
  let ?r = "Request (mint_send (mintQuantity s) p)"
  define w3 where "w3 = backoff 2 ((backoff 1 ((backoff 0 (w\<lparr>trace := trace w @ [?r]\<rparr>))
       \<lparr>trace := trace (backoff 0 (w\<lparr>trace := trace w @ [?r]\<rparr>)) @ [?r]\<rparr>))
       \<lparr>trace := trace (backoff 1 ((backoff 0 (w\<lparr>trace := trace w @ [?r]\<rparr>))
       \<lparr>trace := trace (backoff 0 (w\<lparr>trace := trace w @ [?r]\<rparr>)) @ [?r]\<rparr>)) @ [?r]\<rparr>)"
  have "attemptMint E s p 0 w = attemptMint E s p 3 w3"
    unfolding w3_def
    using attemptMint_retry [OF assms, of 0] attemptMint_retry [OF assms, of 1] attemptMint_retry [OF assms, of 2]
    by (simp add: numeral_3_eq_3 numeral_2_eq_2)
  moreover obtain e where "isRateLimited e" "answer_unit E (trace w3) (mint_send (mintQuantity s) p) = Inl e"
    "attemptMint E s p 3 w3 = (Inl e, w3\<lparr>trace := trace w3 @ [?r]\<rparr>)"
    using attemptMint_give_up [OF assms, of w3] by blast
  moreover have "w3\<lparr>trace := trace w3 @ [?r]\<rparr> =  \<lparr>app = (app w)\<lparr>status := ''RPC rate limited, retrying in 2s...''\<rparr>,
       trace = trace w @ [?r, Timeout 500, ?r, Timeout 1000, ?r, Timeout 2000, ?r]\<rparr>"
    by (cases w) (simp add: w3_def backoff_def delayMs_def round_seconds_def nat_toString.simps digit_char_def)
  moreover have "trace w3 = trace w @ [?r, Timeout 500, ?r, Timeout 1000, ?r, Timeout 2000]"
    by (simp add: w3_def backoff_def delayMs_def)
  ultimately show ?thesis by auto
qed

lemma rate_limited_env_simps:
  "ethereum rate_limited_env"
  "CONTRACT_ADDRESS rate_limited_env = Some ''0xC0''"
  "answer_unit rate_limited_env h getSigner = Inr ()"
  "answer_unit rate_limited_env h (mint_staticCall q v) = Inr ()"
  "answer_unit rate_limited_env h (mint_estimateGas q v) = Inr ()"
  "answer_unit rate_limited_env h (mint_send q v) = Inl (rpc_error (- 32603) ''Request is being rate limited'')"
  "answer_uint rate_limited_env h call_mintPrice = Inr 1000000000000000000"
  by (simp_all add: rate_limited_env_def sample_env_def sample_uint_def)

lemma unat_sample_price: "unat (1000000000000000000 :: uint256) = 1000000000000000000"
  by simp

lemma rate_limit_error: "isRateLimited (rpc_error (- 32603) ''Request is being rate limited'')"
  by code_simp

lemma rate_limited_env_always: "always_rate_limited rate_limited_env (mint_send q v)"
  by (simp add: always_rate_limited_def rate_limited_env_simps rate_limit_error)

lemma connected_in_range: "quantity_in_range (app connected_world)"
  by (simp add: quantity_in_range_def connected_world_def initial_state_def)

lemma rate_limited_run_eq:
  "rate_limited_run =
     \<lparr>app = initial_state\<lparr>account := Some ''0xA1'', status := ''Request is being rate limited''\<rparr>,
      trace = [Console Log ''Mint attempt - userMintedCount:'', Request getSigner, Request call_mintPrice,
         Request (mint_staticCall 1 1000000000000000000), Request (mint_estimateGas 1 1000000000000000000),
         Request (mint_send 1 1000000000000000000), Timeout 500,
         Request (mint_send 1 1000000000000000000), Timeout 1000,
         Request (mint_send 1 1000000000000000000), Timeout 2000,
         Request (mint_send 1 1000000000000000000), Console Error []]\<rparr>"
proof -
  let ?E = rate_limited_env
  let ?s = "initial_state\<lparr>account := Some ''0xA1''\<rparr>"
  let ?p = "1000000000000000000 :: nat"
  let ?w2 = "\<lparr>app = ?s\<lparr>minting := True, status := ''Preparing transaction...''\<rparr>,
              trace = [Console Log ''Mint attempt - userMintedCount:'']\<rparr>"
  let ?w4 = "\<lparr>app = ?s\<lparr>minting := True, status := ''Preparing transaction...''\<rparr>,
              trace = [Console Log ''Mint attempt - userMintedCount:'', Request getSigner,
                Request call_mintPrice, Request (mint_staticCall 1 ?p), Request (mint_estimateGas 1 ?p)]\<rparr>"
  have q: "mintQuantity ?s = 1" by (simp add: initial_state_def)
  have a: "mintNFT ?E connected_world =
      mint_transaction ?E ?s \<lparr>app = ?s, trace = [Console Log ''Mint attempt - userMintedCount:'']\<rparr>"
    using mintNFT_valid [OF rate_limited_env_simps(1) connected_in_range]
    by (simp add: connected_world_def)
  have b: "mint_try ?E ?s ?w2 = attemptMint ?E ?s ?p 0 ?w4"
    by (subst mint_try_reaches_simulation [where price = 1000000000000000000])
       (simp_all add: rate_limited_env_simps truthy_def q seq_def bind_def simulate_passes unat_sample_price)
  have "always_rate_limited ?E (mint_send (mintQuantity ?s) ?p)"
    by (rule rate_limited_env_always)
  from attemptMint_rate_limited [OF this, where w = ?w4]
  obtain e where e: "answer_unit ?E (trace ?w4 @
        [Request (mint_send (mintQuantity ?s) ?p), Timeout 500,
         Request (mint_send (mintQuantity ?s) ?p), Timeout 1000,
         Request (mint_send (mintQuantity ?s) ?p), Timeout 2000]) (mint_send (mintQuantity ?s) ?p) = Inl e"
    and c: "attemptMint ?E ?s ?p 0 ?w4 =
     (Inl e,
      \<lparr>app = (app ?w4)\<lparr>status := ''RPC rate limited, retrying in 2s...''\<rparr>,
       trace = trace ?w4 @
        [Request (mint_send (mintQuantity ?s) ?p), Timeout 500,
         Request (mint_send (mintQuantity ?s) ?p), Timeout 1000,
         Request (mint_send (mintQuantity ?s) ?p), Timeout 2000,
         Request (mint_send (mintQuantity ?s) ?p)]\<rparr>)"
    by blast
  have e': "e = rpc_error (- 32603) ''Request is being rate limited''"
    using e by (simp add: rate_limited_env_simps)
  have m: "or_else (message e) ''Mint failed'' = ''Request is being rate limited''"
    by (simp add: e' rpc_error_def or_else_def)
  have d: "mint_try ?E ?s (\<lparr>app = ?s, trace = [Console Log ''Mint attempt - userMintedCount:'']\<rparr>
       \<lparr>app := (app \<lparr>app = ?s, trace = [Console Log ''Mint attempt - userMintedCount:'']\<rparr>)
          \<lparr>minting := True, status := ''Preparing transaction...''\<rparr>\<rparr>) =
     (Inl e,
      \<lparr>app = (app ?w4)\<lparr>status := ''RPC rate limited, retrying in 2s...''\<rparr>,
       trace = trace ?w4 @
        [Request (mint_send (mintQuantity ?s) ?p), Timeout 500,
         Request (mint_send (mintQuantity ?s) ?p), Timeout 1000,
         Request (mint_send (mintQuantity ?s) ?p), Timeout 2000,
         Request (mint_send (mintQuantity ?s) ?p)]\<rparr>)"
    using b c by simp
  show ?thesis
    unfolding rate_limited_run_def a mint_transaction_caught [OF d] m
    by (simp add: q initial_state_def)
qed


text \<open>
  \<^bold>\<open>C1, as stated, fails.\<close>  Against a node that rate-limits every submission, a mint of
  one token submits four times and waits three times (500, 1000 and 2000 ms) before the
  operation ends with the error as status and the minting flag released.
\<close>

theorem rate_limited_run_makes_fourth_submission:
  "always_rate_limited rate_limited_env (mint_send 1 1000000000000000000) \<and>
   length (submissions (trace rate_limited_run)) = 4 \<and>
   waits (trace rate_limited_run) = [500, 1000, 2000] \<and>
   status (app rate_limited_run) = ''Request is being rate limited'' \<and>
   \<not> minting (app rate_limited_run)"
  by (simp add: rate_limited_env_always rate_limited_run_eq submissions_def waits_def initial_state_def)


text \<open>
  \<^bold>\<open>C1, amended.\<close>  If every submission fails with a rate-limit error, \<^verbatim>\<open>attemptMint(0)\<close>
  submits exactly four times (attempts 0 to 3; the gate \<^verbatim>\<open>attempt < 3\<close> admits three
  retries), waits exactly three times, the delay before retry \<open>i\<close> being \<open>500 \<times> 2^i\<close> ms, i.e.
  500, 1000 and 2000 ms, and then throws the error to \<^verbatim>\<open>mintNFT\<close>; a fifth submission is
  never made.
\<close>

theorem attemptMint_rate_limited_four_submissions:
  assumes "always_rate_limited E (mint_send (mintQuantity s) p)"
  shows "isl (fst (attemptMint E s p 0 w)) \<and>
     trace (snd (attemptMint E s p 0 w)) = trace w @
        [Request (mint_send (mintQuantity s) p), Timeout (delayMs 0),
         Request (mint_send (mintQuantity s) p), Timeout (delayMs 1),
         Request (mint_send (mintQuantity s) p), Timeout (delayMs 2),
         Request (mint_send (mintQuantity s) p)] \<and>
     [delayMs 0, delayMs 1, delayMs 2] = [500, 1000, 2000]"
  using attemptMint_rate_limited [OF assms, of w]
  by (auto simp add: delayMs_def)


theorem attemptMint_rate_limited_four_submissions_witness:
  "always_rate_limited rate_limited_env (mint_send (mintQuantity initial_state) 5) \<and>
   isl (fst (attemptMint rate_limited_env initial_state 5 0 fresh_world)) \<and>
   waits (trace (snd (attemptMint rate_limited_env initial_state 5 0 fresh_world))) = [500, 1000, 2000] \<and>
   length (submissions (trace (snd (attemptMint rate_limited_env initial_state 5 0 fresh_world)))) = 4"
  using attemptMint_rate_limited_four_submissions [OF rate_limited_env_always, of initial_state 5 fresh_world] rate_limited_env_always
  by (simp add: waits_def submissions_def fresh_world_def)


subsection \<open>Pre-flight simulation\<close>

lemma reverting_env_simps:
  "ethereum reverting_env"
  "CONTRACT_ADDRESS reverting_env = Some ''0xC0''"
  "answer_unit reverting_env h getSigner = Inr ()"
  "answer_unit reverting_env h (mint_staticCall q v) = Inl revert_error"
  "answer_uint reverting_env h call_mintPrice = Inr 1000000000000000000"
  by (simp_all add: reverting_env_def sample_env_def sample_uint_def)

lemma revert_error_fatal: "\<not> benignSimFailure (simulation_message revert_error)"
  by code_simp

lemma revert_error_short: "simulation_message revert_error = ''execution reverted''"
  by (simp add: simulation_message_def revert_error_def or_else_def)

lemma mintNFT_fatal_simulation:
  assumes "ethereum E" "quantity_in_range (app w)" "truthy (CONTRACT_ADDRESS E)"
    and "answer_unit E (trace w @ [Console Log ''Mint attempt - userMintedCount:'']) getSigner = Inr ()"
    and "answer_uint E (trace w @ [Console Log ''Mint attempt - userMintedCount:'', Request getSigner])
           call_mintPrice = Inr price"
    and "answer_unit E (trace w @ [Console Log ''Mint attempt - userMintedCount:'', Request getSigner,
           Request call_mintPrice]) (mint_staticCall (mintQuantity (app w)) (unat price * nat (mintQuantity (app w))))
           = Inl simErr"
    and "\<not> benignSimFailure (simulation_message simErr)"
  shows "mintNFT E w =
     (Inr (),
      \<lparr>app = (app w)\<lparr>status := or_else (message simErr) ''Mint failed'', minting := False\<rparr>,
       trace = trace w @ [Console Log ''Mint attempt - userMintedCount:'', Request getSigner,
           Request call_mintPrice,
           Request (mint_staticCall (mintQuantity (app w)) (unat price * nat (mintQuantity (app w)))),
           Console Error []]\<rparr>)"
proof -
  let ?q = "mintQuantity (app w)"
  let ?w1 = "w\<lparr>trace := trace w @ [Console Log ''Mint attempt - userMintedCount:'']\<rparr>"
  let ?w2 = "?w1\<lparr>app := (app ?w1)\<lparr>minting := True, status := ''Preparing transaction...''\<rparr>\<rparr>"
  let ?w3 = "?w2\<lparr>trace := trace ?w2 @ [Request getSigner, Request call_mintPrice]\<rparr>"
  have s: "simulate E ?q (unat price * nat ?q) ?w3 =
     (Inl simErr, \<lparr>app = (app ?w3)\<lparr>status := simulation_message simErr\<rparr>,
                   trace = trace ?w3 @ [Request (mint_staticCall ?q (unat price * nat ?q))]\<rparr>)"
    by (subst simulate_fails [where simErr = simErr]) (simp_all add: assms)
  have mt: "mint_try E (app w) ?w2 =
     seq (simulate E ?q (unat price * nat ?q)) (attemptMint E (app w) (unat price * nat ?q) 0) ?w3"
    by (rule mint_try_reaches_simulation) (simp_all add: assms)
  have t: "mint_try E (app ?w1) (?w1\<lparr>app := (app ?w1)\<lparr>minting := True, status := ''Preparing transaction...''\<rparr>\<rparr>) =
     (Inl simErr, \<lparr>app = (app ?w3)\<lparr>status := simulation_message simErr\<rparr>,
                   trace = trace ?w3 @ [Request (mint_staticCall ?q (unat price * nat ?q))]\<rparr>)"
    using mt s by (simp add: seq_def bind_def)
  show ?thesis
    unfolding mintNFT_valid [OF assms(1,2)]
    using mint_transaction_caught [OF t] by simp
qed

lemma reverting_run_eq:
  "reverting_run =
     \<lparr>app = initial_state\<lparr>account := Some ''0xA1'', status := ''execution reverted (code=CALL_EXCEPTION)''\<rparr>,
      trace = [Console Log ''Mint attempt - userMintedCount:'', Request getSigner, Request call_mintPrice,
         Request (mint_staticCall 1 1000000000000000000), Console Error []]\<rparr>"
proof -
  have m: "or_else (message revert_error) ''Mint failed'' = ''execution reverted (code=CALL_EXCEPTION)''"
    by (simp add: revert_error_def or_else_def)
  have q: "mintQuantity (app connected_world) = 1" "trace connected_world = []"
    by (simp_all add: connected_world_def initial_state_def)
  have "mintNFT reverting_env connected_world =
     (Inr (),
      \<lparr>app = (app connected_world)\<lparr>status := or_else (message revert_error) ''Mint failed'', minting := False\<rparr>,
       trace = trace connected_world @ [Console Log ''Mint attempt - userMintedCount:'', Request getSigner,
           Request call_mintPrice,
           Request (mint_staticCall (mintQuantity (app connected_world))
              (unat (1000000000000000000 :: uint256) * nat (mintQuantity (app connected_world)))),
           Console Error []]\<rparr>)"
    by (rule mintNFT_fatal_simulation)
       (simp_all add: reverting_env_simps connected_in_range truthy_def revert_error_fatal)
  then show ?thesis
    by (simp add: reverting_run_def m q) (simp add: connected_world_def initial_state_def)
qed


text \<open>
  \<^bold>\<open>C8 at the failing input.\<close>  The dry run reverts with short message
  \<^verbatim>\<open>execution reverted\<close>, which matches none of the benign words.  The mint aborts without
  submitting, but the status the user is left with is the error's long \<^verbatim>\<open>message\<close>: the
  outer \<^verbatim>\<open>catch\<close> of \<^verbatim>\<open>mintNFT\<close> overwrites the short message set a moment before.
\<close>

theorem mintNFT_fatal_simulation_status_is_long_message:
  "simulation_message revert_error = ''execution reverted'' \<and>
   \<not> benignSimFailure (simulation_message revert_error) \<and>
   status (app reverting_run) = ''execution reverted (code=CALL_EXCEPTION)'' \<and>
   status (app reverting_run) \<noteq> simulation_message revert_error \<and>
   submissions (trace reverting_run) = []"
  by (simp add: revert_error_short revert_error_fatal [unfolded revert_error_short] reverting_run_eq submissions_def)


subsection \<open>Traces only grow\<close>

lemma growsI: "(\<And>w. \<exists>evs. trace (snd (m w)) = trace w @ evs) \<Longrightarrow> grows m"
  by (simp add: grows_def)

lemma growsD: "grows m \<Longrightarrow> \<exists>evs. trace (snd (m w)) = trace w @ evs"
  by (simp add: grows_def)

lemma grows_ret [intro!]: "grows (ret x)"
  and grows_throw [intro!]: "grows (throw e)"
  and grows_emit [intro!]: "grows (emit ev)"
  and grows_modify [intro!]: "grows (modify f)"
  and grows_ask [intro!]: "grows (ask answer r)"
  by (simp_all add: grows_def ret_def throw_def emit_def modify_def ask_def)

lemma grows_bind [intro!]:
  assumes "grows m" "\<And>x. grows (f x)"
  shows "grows (bind m f)"
proof (rule growsI)
  fix w
  obtain r w' where mw: "m w = (r, w')" by (cases "m w")
  obtain evs where e: "trace w' = trace w @ evs" using growsD [OF assms(1), of w] mw by auto
  show "\<exists>evs. trace (snd (bind m f w)) = trace w @ evs"
  proof (cases r)
    case (Inl err)
    then show ?thesis using mw e by (simp add: bind_def)
  next
    case (Inr x)
    obtain evs' where "trace (snd (f x w')) = trace w' @ evs'" using growsD [OF assms(2)] by blast
    then show ?thesis using Inr mw e by (simp add: bind_def)
  qed
qed

lemma grows_seq [intro!]: "grows m \<Longrightarrow> grows k \<Longrightarrow> grows (seq m k)"
  by (simp add: seq_def grows_bind)

lemma grows_try_catch [intro!]:
  assumes "grows m" "\<And>e. grows (h e)"
  shows "grows (try_catch m h)"
proof (rule growsI)
  fix w
  obtain r w' where mw: "m w = (r, w')" by (cases "m w")
  obtain evs where e: "trace w' = trace w @ evs" using growsD [OF assms(1), of w] mw by auto
  show "\<exists>evs. trace (snd (try_catch m h w)) = trace w @ evs"
  proof (cases r)
    case (Inr x)
    then show ?thesis using mw e by (simp add: try_catch_def)
  next
    case (Inl err)
    obtain evs' where "trace (snd (h err w')) = trace w' @ evs'" using growsD [OF assms(2)] by blast
    then show ?thesis using Inl mw e by (simp add: try_catch_def)
  qed
qed

lemma grows_read_user_minted: "grows (read_user_minted E a)"
  unfolding read_user_minted_def by blast

lemma grows_refresh: "grows (refreshContractData E acct)"
  unfolding refreshContractData_def refresh_body_def getContract_def
  by (auto split: option.splits intro: grows_read_user_minted)

lemma grows_submit_once: "grows (submit_once E s p)"
  unfolding submit_once_def by (blast intro: grows_refresh)

lemma submit_once_first:
  "\<exists>evs. trace (snd (submit_once E s p w)) = trace w @ Request (mint_send (mintQuantity s) p) # evs"
proof (cases "answer_unit E (trace w) (mint_send (mintQuantity s) p)")
  case (Inl e)
  then show ?thesis by (simp add: submit_once_def bind_ask)
next
  case (Inr u)
  let ?w1 = "w\<lparr>trace := trace w @ [Request (mint_send (mintQuantity s) p)]\<rparr>"
  let ?k = "seq (modify (\<lambda>t. t\<lparr>status := ''Waiting for confirmation...''\<rparr>))
    (bind (ask (answer_unit E) tx_wait) (\<lambda>_.
     seq (modify (\<lambda>t. t\<lparr>status :=
            ''Minted '' @ int_toString (mintQuantity s) @ '' NFT'' @ plural (mintQuantity s > 1) @ ''!''\<rparr>))
         (refreshContractData E (account s))))"
  have "grows ?k" by (blast intro: grows_refresh)
  then obtain evs where "trace (snd (?k ?w1)) = trace ?w1 @ evs" using growsD by blast
  moreover have "submit_once E s p w = ?k ?w1" using Inr by (simp add: submit_once_def bind_ask)
  ultimately show ?thesis by simp
qed

lemma attemptMint_first:
  "\<exists>evs. trace (snd (attemptMint E s p n w)) = trace w @ Request (mint_send (mintQuantity s) p) # evs"
proof (induction E s p n w rule: attemptMint.induct)
  case (1 E s p n w)
  obtain r w' where sw: "submit_once E s p w = (r, w')" by (cases "submit_once E s p w")
  obtain evs where e: "trace w' = trace w @ Request (mint_send (mintQuantity s) p) # evs"
    using submit_once_first [of E s p w] sw by auto
  show ?case
  proof (cases r)
    case (Inr u)
    then show ?thesis using sw e by (subst attemptMint.simps) simp
  next
    case (Inl err)
    show ?thesis
    proof (cases "isRateLimited err \<and> n < 3")
      case True
      obtain evs' where "trace (snd (attemptMint E s p (n + 1) (backoff n w'))) =
          trace (backoff n w') @ Request (mint_send (mintQuantity s) p) # evs'"
        using "1.IH" [OF sw [symmetric] Inl True] by blast
      then show ?thesis using sw e Inl True
        by (subst attemptMint.simps) (simp add: backoff_def)
    next
      case False
      then show ?thesis using sw e Inl by (subst attemptMint.simps) auto
    qed
  qed
qed

lemma mint_transaction_trace:
  "\<exists>evs. trace (snd (mint_transaction E s w)) =
     trace (snd (mint_try E s (w\<lparr>app := (app w)\<lparr>minting := True, status := ''Preparing transaction...''\<rparr>\<rparr>))) @ evs"
proof -
  let ?w = "w\<lparr>app := (app w)\<lparr>minting := True, status := ''Preparing transaction...''\<rparr>\<rparr>"
  obtain r w' where m: "mint_try E s ?w = (r, w')" by (cases "mint_try E s ?w")
  show ?thesis
  proof (cases r)
    case (Inl e)
    then show ?thesis using mint_transaction_caught [of E s w e w'] m by simp
  next
    case (Inr u)
    then show ?thesis using mint_transaction_done [of E s w w'] m by simp
  qed
qed

lemma mintNFT_benign_simulation:
  assumes "ethereum E" "quantity_in_range (app w)" "truthy (CONTRACT_ADDRESS E)"
    and "answer_unit E (trace w @ [Console Log ''Mint attempt - userMintedCount:'']) getSigner = Inr ()"
    and "answer_uint E (trace w @ [Console Log ''Mint attempt - userMintedCount:'', Request getSigner])
           call_mintPrice = Inr price"
    and "answer_unit E (trace w @ [Console Log ''Mint attempt - userMintedCount:'', Request getSigner,
           Request call_mintPrice]) (mint_staticCall (mintQuantity (app w)) (unat price * nat (mintQuantity (app w))))
           = Inl simErr"
    and "benignSimFailure (simulation_message simErr)"
  shows "\<exists>evs. trace (snd (mintNFT E w)) =
       trace w @ [Console Log ''Mint attempt - userMintedCount:'', Request getSigner,
           Request call_mintPrice,
           Request (mint_staticCall (mintQuantity (app w)) (unat price * nat (mintQuantity (app w)))),
           Console Warn ''Simulation failed, proceeding to send:'',
           Request (mint_send (mintQuantity (app w)) (unat price * nat (mintQuantity (app w))))] @ evs"
proof -
  let ?q = "mintQuantity (app w)"
  let ?p = "unat price * nat ?q"
  let ?w1 = "w\<lparr>trace := trace w @ [Console Log ''Mint attempt - userMintedCount:'']\<rparr>"
  let ?w2 = "?w1\<lparr>app := (app ?w1)\<lparr>minting := True, status := ''Preparing transaction...''\<rparr>\<rparr>"
  let ?w3 = "?w2\<lparr>trace := trace ?w2 @ [Request getSigner, Request call_mintPrice]\<rparr>"
  let ?w4 = "\<lparr>app = (app ?w3)\<lparr>status := ''Simulation unavailable, submitting transaction...''\<rparr>,
             trace = trace ?w3 @ [Request (mint_staticCall ?q ?p),
                                  Console Warn ''Simulation failed, proceeding to send:'']\<rparr>"
  have s: "simulate E ?q ?p ?w3 = (Inr (), ?w4)"
    by (subst simulate_fails [where simErr = simErr]) (simp_all add: assms)
  have mt: "mint_try E (app w) ?w2 = seq (simulate E ?q ?p) (attemptMint E (app w) ?p 0) ?w3"
    by (rule mint_try_reaches_simulation) (simp_all add: assms)
  have t: "mint_try E (app ?w1) ?w2 = attemptMint E (app w) ?p 0 ?w4"
    using mt s by (simp add: seq_def bind_def)
  obtain evs where a: "trace (snd (attemptMint E (app w) ?p 0 ?w4)) = trace ?w4 @ Request (mint_send ?q ?p) # evs"
    using attemptMint_first by blast
  obtain evs' where "trace (snd (mint_transaction E (app ?w1) ?w1)) = trace (snd (mint_try E (app ?w1) ?w2)) @ evs'"
    using mint_transaction_trace by blast
  then show ?thesis
    unfolding mintNFT_valid [OF assms(1,2)] using t a by simp
qed


section \<open>Properties of the network guarantor\<close>

lemma ensure_same_chain:
  assumes "answer_string E (trace w) eth_chainId = Inr targetChainIdHex"
  shows "ensureMonadNetwork E w = (Inr (), w\<lparr>trace := trace w @ [Request eth_chainId]\<rparr>)"
  using assms by (simp add: ensureMonadNetwork_def try_catch_def bind_ask ret_def)

lemma ensure_switch_ok:
  assumes "answer_string E (trace w) eth_chainId = Inr current" "current \<noteq> targetChainIdHex"
    "answer_unit E (trace w @ [Request eth_chainId]) (wallet_switchEthereumChain targetChainIdHex) = Inr ()"
  shows "ensureMonadNetwork E w = (Inr (), w\<lparr>trace := trace w @ [Request eth_chainId, switch_request]\<rparr>)"
  using assms by (simp add: ensureMonadNetwork_def try_catch_def bind_ask ask_def)

lemma ensure_switch_unrecognized:
  assumes "answer_string E (trace w) eth_chainId = Inr current" "current \<noteq> targetChainIdHex"
    "answer_unit E (trace w @ [Request eth_chainId]) (wallet_switchEthereumChain targetChainIdHex) = Inl err"
    "unrecognized_chain err"
  shows "ensureMonadNetwork E w =
     (case answer_unit E (trace w @ [Request eth_chainId, switch_request])
             (wallet_addEthereumChain (monad_testnet E)) of
        Inr u \<Rightarrow> (Inr (), w\<lparr>trace := trace w @ [Request eth_chainId, switch_request, add_request E]\<rparr>)
      | Inl e \<Rightarrow> (Inl e, w\<lparr>trace := trace w @ [Request eth_chainId, switch_request, add_request E,
                                    Console Error ''ensureMonadNetwork error'']\<rparr>))"
  using assms
  by (simp add: ensureMonadNetwork_def try_catch_def bind_ask ask_def throw_def split: sum.splits)

lemma ensure_switch_fatal:
  assumes "answer_string E (trace w) eth_chainId = Inr current" "current \<noteq> targetChainIdHex"
    "answer_unit E (trace w @ [Request eth_chainId]) (wallet_switchEthereumChain targetChainIdHex) = Inl err"
    "\<not> unrecognized_chain err"
  shows "ensureMonadNetwork E w =
     (Inl err, w\<lparr>trace := trace w @ [Request eth_chainId, switch_request,
                                    Console Error ''ensureMonadNetwork error'']\<rparr>)"
  using assms
  by (simp add: ensureMonadNetwork_def try_catch_def bind_ask ask_def throw_def)

lemma ensure_first:
  "\<exists>evs. trace (snd (ensureMonadNetwork E w)) = trace w @ Request eth_chainId # evs"
  by (simp add: ensureMonadNetwork_def try_catch_def bind_ask ask_def throw_def ret_def
      split: sum.splits)

lemma connect_after_ensure:
  assumes "ethereum E" "ensureMonadNetwork E w = (r, w')"
  shows "\<exists>evs. trace (snd (connectWallet E w)) = trace w' @ evs \<and>
     (case r of Inl e \<Rightarrow> evs = [Console Error []]
              | Inr u \<Rightarrow> (\<exists>evs'. evs = Request eth_requestAccounts # evs'))"
proof (cases r)
  case (Inl e)
  then show ?thesis using assms
    by (simp add: connectWallet_def try_catch_def seq_def bind_def modify_def emit_def)
next
  case (Inr u)
  let ?k = "\<lambda>accounts. seq (modify (\<lambda>s. s\<lparr>account := first_account accounts\<rparr>))
          (seq (modify (\<lambda>s. s\<lparr>status := ''Wallet connected''\<rparr>))
               (refreshContractData E (account (app w))))"
  let ?h = "\<lambda>e. seq (emit (Console Error []))
                   (modify (\<lambda>s. s\<lparr>status := ''Failed to connect wallet''\<rparr>))"
  let ?w1 = "w'\<lparr>trace := trace w' @ [Request eth_requestAccounts]\<rparr>"
  have c: "connectWallet E w = try_catch (bind (ask (answer_accounts E) eth_requestAccounts) ?k) ?h w'"
    using assms Inr by (simp add: connectWallet_def try_catch_def seq_def bind_def split: sum.splits prod.splits)
  show ?thesis
  proof (cases "answer_accounts E (trace w') eth_requestAccounts")
    case (Inl e)
    then show ?thesis using \<open>r = Inr u\<close> c by (simp add: try_catch_def bind_ask modify_def)
  next
    case (Inr accounts)
    have "grows (?k accounts)" by (blast intro: grows_refresh)
    then obtain evs where "trace (snd (?k accounts ?w1)) = trace ?w1 @ evs" using growsD by blast
    moreover have "fst (?k accounts ?w1) = Inr ()" by (simp add: refresh_ok)
    ultimately show ?thesis using \<open>r = Inr u\<close> c Inr
      by (cases "?k accounts ?w1") (simp add: try_catch_def bind_ask)
  qed
qed

lemma unknown_chain_env_simps:
  "ethereum unknown_chain_env"
  "answer_string unknown_chain_env h eth_chainId = Inr ''0x1''"
  "answer_unit unknown_chain_env h (wallet_switchEthereumChain c) = Inl (rpc_error 4902 ''Unrecognized chain ID 0x279f'')"
  "answer_unit unknown_chain_env h (wallet_addEthereumChain d) = Inr ()"
  by (simp_all add: unknown_chain_env_def sample_env_def)

lemma rejecting_env_simps:
  "ethereum rejecting_env"
  "answer_string rejecting_env h eth_chainId = Inr ''0x1''"
  "answer_unit rejecting_env h (wallet_switchEthereumChain c) = Inl (rpc_error 4001 ''User rejected the request.'')"
  by (simp_all add: rejecting_env_def sample_env_def)

lemma unrecognized_4902: "unrecognized_chain (rpc_error 4902 ''Unrecognized chain ID 0x279f'')"
  by (simp add: unrecognized_chain_def rpc_error_def)

lemma unrecognized_by_message: "unrecognized_chain (JsError None None (Some ''unrecognized chain id 0x279f''))"
  by code_simp

lemma rejected_4001: "\<not> unrecognized_chain (rpc_error 4001 ''User rejected the request.'')"
  by code_simp


text \<open>
  \<^bold>\<open>C7.\<close>  \<^verbatim>\<open>ensureMonadNetwork\<close> first reads the wallet's chain id and, when it differs
  from the target id, requests a switch.  If the switch fails with the unrecognized-chain
  condition (code 4902 or a message containing \<^verbatim>\<open>Unrecognized chain ID\<close>), an add-chain
  request with the configured network definition follows and decides the outcome.  The
  target id is \<^verbatim>\<open>0x279F\<close>, and the definition is: chain id \<^verbatim>\<open>0x279F\<close>, name
  \<^verbatim>\<open>Monad Testnet\<close>, native currency \<^verbatim>\<open>MON\<close> (symbol \<^verbatim>\<open>MON\<close>, 18 decimals), the RPC
  endpoint \<^verbatim>\<open>VITE_MONAD_RPC_URL\<close> if set and non-empty and
  \<^verbatim>\<open>https://testnet-rpc.monad.xyz\<close> otherwise, and the explorer
  \<^verbatim>\<open>https://testnet.monadexplorer.com\<close>.  Any other
  switch failure is rethrown at once, with no further request, and \<^verbatim>\<open>connectWallet\<close> ends
  with status \<^verbatim>\<open>Failed to connect wallet\<close>.  \<^verbatim>\<open>connectWallet\<close> runs the network check
  first: \<^verbatim>\<open>eth_requestAccounts\<close> is the next request after it when it succeeded, and is not
  issued when it failed.
\<close>

theorem ensureMonadNetwork_switch_add_and_connect_order:
  "targetChainIdHex = ''0x279F'' \<and>
   monad_testnet E =
     \<lparr>chainId = ''0x279F'', chainName = ''Monad Testnet'',
      currencyName = ''MON'', currencySymbol = ''MON'', currencyDecimals = 18,
      rpcUrls = [case VITE_MONAD_RPC_URL E of
                   None \<Rightarrow> ''https://testnet-rpc.monad.xyz''
                 | Some url \<Rightarrow> if url = [] then ''https://testnet-rpc.monad.xyz'' else url],
      blockExplorerUrls = [''https://testnet.monadexplorer.com'']\<rparr> \<and>
   (answer_string E (trace w) eth_chainId = Inr current \<and> current \<noteq> targetChainIdHex \<longrightarrow>
      (\<exists>evs. trace (snd (ensureMonadNetwork E w)) = trace w @ Request eth_chainId # switch_request # evs) \<and>
      (\<forall>err. answer_unit E (trace w @ [Request eth_chainId]) (wallet_switchEthereumChain targetChainIdHex) = Inl err \<longrightarrow>
         (if unrecognized_chain err
          then fst (ensureMonadNetwork E w) =
                 answer_unit E (trace w @ [Request eth_chainId, switch_request])
                   (wallet_addEthereumChain (monad_testnet E)) \<and>
               (\<exists>evs. trace (snd (ensureMonadNetwork E w)) =
                        trace w @ Request eth_chainId # switch_request # add_request E # evs)
          else ensureMonadNetwork E w =
                 (Inl err, w\<lparr>trace := trace w @ [Request eth_chainId, switch_request,
                                                Console Error ''ensureMonadNetwork error'']\<rparr>) \<and>
               (ethereum E \<longrightarrow>
                  connectWallet E w =
                    (Inr (), \<lparr>app = (app w)\<lparr>status := ''Failed to connect wallet''\<rparr>,
                              trace = trace w @ [Request eth_chainId, switch_request,
                                        Console Error ''ensureMonadNetwork error'', Console Error []]\<rparr>))))) \<and>
   (ethereum E \<longrightarrow>
      (\<exists>evs evs'. trace (snd (ensureMonadNetwork E w)) = trace w @ Request eth_chainId # evs \<and>
          trace (snd (connectWallet E w)) = trace (snd (ensureMonadNetwork E w)) @ evs' \<and>
          (case fst (ensureMonadNetwork E w) of
             Inl e \<Rightarrow> evs' = [Console Error []]
           | Inr u \<Rightarrow> (\<exists>rest. evs' = Request eth_requestAccounts # rest))))"
proof (intro conjI impI allI)
  show "targetChainIdHex = ''0x279F''" by (simp add: targetChainIdHex_def)
next
  show "monad_testnet E =
     \<lparr>chainId = ''0x279F'', chainName = ''Monad Testnet'',
      currencyName = ''MON'', currencySymbol = ''MON'', currencyDecimals = 18,
      rpcUrls = [case VITE_MONAD_RPC_URL E of
                   None \<Rightarrow> ''https://testnet-rpc.monad.xyz''
                 | Some url \<Rightarrow> if url = [] then ''https://testnet-rpc.monad.xyz'' else url],
      blockExplorerUrls = [''https://testnet.monadexplorer.com'']\<rparr>"
    by (simp add: monad_testnet_def targetChainIdHex_def or_else_def)
next
  assume a: "answer_string E (trace w) eth_chainId = Inr current \<and> current \<noteq> targetChainIdHex"
  show "\<exists>evs. trace (snd (ensureMonadNetwork E w)) = trace w @ Request eth_chainId # switch_request # evs"
    using a by (simp add: ensureMonadNetwork_def try_catch_def bind_ask ask_def throw_def split: sum.splits)
next
  fix err
  assume a: "answer_string E (trace w) eth_chainId = Inr current \<and> current \<noteq> targetChainIdHex"
    and s: "answer_unit E (trace w @ [Request eth_chainId]) (wallet_switchEthereumChain targetChainIdHex) = Inl err"
  show "if unrecognized_chain err
          then fst (ensureMonadNetwork E w) =
                 answer_unit E (trace w @ [Request eth_chainId, switch_request])
                   (wallet_addEthereumChain (monad_testnet E)) \<and>
               (\<exists>evs. trace (snd (ensureMonadNetwork E w)) =
                        trace w @ Request eth_chainId # switch_request # add_request E # evs)
          else ensureMonadNetwork E w =
                 (Inl err, w\<lparr>trace := trace w @ [Request eth_chainId, switch_request,
                                                Console Error ''ensureMonadNetwork error'']\<rparr>) \<and>
               (ethereum E \<longrightarrow>
                  connectWallet E w =
                    (Inr (), \<lparr>app = (app w)\<lparr>status := ''Failed to connect wallet''\<rparr>,
                              trace = trace w @ [Request eth_chainId, switch_request,
                                        Console Error ''ensureMonadNetwork error'', Console Error []]\<rparr>))"
  proof (cases "unrecognized_chain err")
    case True
    show ?thesis
      using True ensure_switch_unrecognized [of E w current err] a s
      by (simp split: sum.splits)
  next
    case False
    have e: "ensureMonadNetwork E w =
                 (Inl err, w\<lparr>trace := trace w @ [Request eth_chainId, switch_request,
                                                Console Error ''ensureMonadNetwork error'']\<rparr>)"
      using ensure_switch_fatal [of E w current err] a s False by simp
    show ?thesis using False e
      by (simp add: connectWallet_def try_catch_def seq_def bind_def modify_def emit_def)
  qed
next
  assume eth: "ethereum E"
  obtain r w' where e: "ensureMonadNetwork E w = (r, w')" by (cases "ensureMonadNetwork E w")
  obtain evs where "trace (snd (ensureMonadNetwork E w)) = trace w @ Request eth_chainId # evs"
    using ensure_first by blast
  moreover obtain evs' where "trace (snd (connectWallet E w)) = trace w' @ evs'"
     "case r of Inl e \<Rightarrow> evs' = [Console Error []]
              | Inr u \<Rightarrow> (\<exists>rest. evs' = Request eth_requestAccounts # rest)"
    using connect_after_ensure [OF eth e] by blast
  ultimately show "\<exists>evs evs'. trace (snd (ensureMonadNetwork E w)) = trace w @ Request eth_chainId # evs \<and>
          trace (snd (connectWallet E w)) = trace (snd (ensureMonadNetwork E w)) @ evs' \<and>
          (case fst (ensureMonadNetwork E w) of
             Inl e \<Rightarrow> evs' = [Console Error []]
           | Inr u \<Rightarrow> (\<exists>rest. evs' = Request eth_requestAccounts # rest))"
    using e by auto
qed

theorem ensureMonadNetwork_switch_add_and_connect_order_witness:
  "answer_string unknown_chain_env (trace fresh_world) eth_chainId = Inr ''0x1'' \<and>
   ''0x1'' \<noteq> targetChainIdHex \<and>
   answer_unit unknown_chain_env (trace fresh_world @ [Request eth_chainId])
     (wallet_switchEthereumChain targetChainIdHex) = Inl (rpc_error 4902 ''Unrecognized chain ID 0x279f'') \<and>
   unrecognized_chain (rpc_error 4902 ''Unrecognized chain ID 0x279f'') \<and>
   ethereum unknown_chain_env \<and>
   fst (ensureMonadNetwork unknown_chain_env fresh_world) = Inr () \<and>
   (\<exists>rest. trace (snd (connectWallet unknown_chain_env fresh_world)) =
      [Request eth_chainId, Request (wallet_switchEthereumChain ''0x279F''),
       Request (wallet_addEthereumChain
         \<lparr>chainId = ''0x279F'', chainName = ''Monad Testnet'',
          currencyName = ''MON'', currencySymbol = ''MON'', currencyDecimals = 18,
          rpcUrls = [''https://testnet-rpc.monad.xyz''],
          blockExplorerUrls = [''https://testnet.monadexplorer.com'']\<rparr>),
       Request eth_requestAccounts] @ rest) \<and>
   answer_unit rejecting_env (trace fresh_world @ [Request eth_chainId])
     (wallet_switchEthereumChain targetChainIdHex) = Inl (rpc_error 4001 ''User rejected the request.'') \<and>
   \<not> unrecognized_chain (rpc_error 4001 ''User rejected the request.'') \<and>
   connectWallet rejecting_env fresh_world =
     (Inr (), \<lparr>app = initial_state\<lparr>status := ''Failed to connect wallet''\<rparr>,
               trace = [Request eth_chainId, Request (wallet_switchEthereumChain ''0x279F''),
                        Console Error ''ensureMonadNetwork error'', Console Error []]\<rparr>)"
proof -
  have t: "trace fresh_world = []" "app fresh_world = initial_state" by (simp_all add: fresh_world_def)
  have ne: "''0x1'' \<noteq> targetChainIdHex" by (simp add: targetChainIdHex_def)
  note u = ensureMonadNetwork_switch_add_and_connect_order [of unknown_chain_env fresh_world "''0x1''"]
  note r = ensureMonadNetwork_switch_add_and_connect_order [of rejecting_env fresh_world "''0x1''"]
  have c: "targetChainIdHex = ''0x279F''" using u by blast
  have p: "monad_testnet unknown_chain_env =
         \<lparr>chainId = ''0x279F'', chainName = ''Monad Testnet'',
          currencyName = ''MON'', currencySymbol = ''MON'', currencyDecimals = 18,
          rpcUrls = [''https://testnet-rpc.monad.xyz''],
          blockExplorerUrls = [''https://testnet.monadexplorer.com'']\<rparr>"
    using u [THEN conjunct2, THEN conjunct1] by (simp add: unknown_chain_env_def sample_env_def)
  have e: "ensureMonadNetwork unknown_chain_env fresh_world =
      (Inr (), fresh_world\<lparr>trace := [Request eth_chainId, switch_request, add_request unknown_chain_env]\<rparr>)"
    using ensure_switch_unrecognized [of unknown_chain_env fresh_world "''0x1''", OF _ ne _ unrecognized_4902]
    by (simp add: unknown_chain_env_simps t)
  have 1: "\<exists>rest. trace (snd (connectWallet unknown_chain_env fresh_world)) =
      [Request eth_chainId, switch_request, add_request unknown_chain_env, Request eth_requestAccounts] @ rest"
    using u [THEN conjunct2, THEN conjunct2] by (auto simp add: unknown_chain_env_simps e)
  have 2: "connectWallet rejecting_env fresh_world =
     (Inr (), \<lparr>app = initial_state\<lparr>status := ''Failed to connect wallet''\<rparr>,
               trace = [Request eth_chainId, switch_request,
                        Console Error ''ensureMonadNetwork error'', Console Error []]\<rparr>)"
    using r [THEN conjunct2, THEN conjunct2] ne rejected_4001 by (simp add: rejecting_env_simps t)
  have 3: "fst (ensureMonadNetwork unknown_chain_env fresh_world) = Inr ()" using e by simp
  have 4: "answer_string unknown_chain_env (trace fresh_world) eth_chainId = Inr ''0x1''"
    "answer_unit unknown_chain_env (trace fresh_world @ [Request eth_chainId])
     (wallet_switchEthereumChain targetChainIdHex) = Inl (rpc_error 4902 ''Unrecognized chain ID 0x279f'')"
    "ethereum unknown_chain_env"
    "answer_unit rejecting_env (trace fresh_world @ [Request eth_chainId])
     (wallet_switchEthereumChain targetChainIdHex) = Inl (rpc_error 4001 ''User rejected the request.'')"
    by (simp_all add: unknown_chain_env_simps rejecting_env_simps)
  note 1 [unfolded p c] and 2 [unfolded c]
  then show ?thesis
    using 3 4 ne unrecognized_4902 rejected_4001 by blast
qed


section \<open>Properties of formatMon\<close>

lemma digit_cases: "d < 10 \<Longrightarrow> d \<in> {0, 1, 2, 3, 4, 5, 6, 7, 8, 9::nat}"
  by auto

lemma digit_char_value: "d < 10 \<Longrightarrow> digit_value (digit_char d) = Some d"
  by (drule digit_cases) (auto simp add: digit_char_def digit_value_def upt_conv_Cons)

lemma digit_char_plain:
  "d < 10 \<Longrightarrow> \<not> is_space (digit_char d) \<and> digit_char d \<notin> set ''xXoObB+-''"
  by (drule digit_cases) (auto simp add: digit_char_def is_space_def)

lemma digit_char_zero: "digit_char 0 = CHR ''0''"
  by (simp add: digit_char_def)

lemma nat_toString_small: "n < 10 \<Longrightarrow> nat_toString n = [digit_char n]"
  by (simp add: nat_toString.simps)

lemma nat_toString_big:
  "\<not> n < 10 \<Longrightarrow> nat_toString n = nat_toString (n div 10) @ [digit_char (n mod 10)]"
  by (subst nat_toString.simps) simp

lemma nat_toString_digits:
  "nat_toString n \<noteq> [] \<and> (\<forall>c \<in> set (nat_toString n). \<exists>d < 10. c = digit_char d)"
proof (induction n rule: nat_toString.induct)
  case (1 n)
  show ?case
  proof (cases "n < 10")
    case True
    then show ?thesis by (auto simp add: nat_toString_small)
  next
    case False
    obtain d where "d < 10" "digit_char (n mod 10) = digit_char d"
      by (metis mod_less_divisor zero_less_numeral)
    then show ?thesis using False 1 by (auto simp add: nat_toString_big)
  qed
qed

lemma parse_digits_append:
  "parse_digits b acc (xs @ ys) =
     (case parse_digits b acc xs of None \<Rightarrow> None | Some a \<Rightarrow> parse_digits b a ys)"
  by (induction xs arbitrary: acc) (auto split: option.splits)

lemma parse_digits_nat_toString: "parse_digits 10 0 (nat_toString n) = Some n"
proof (induction n rule: nat_toString.induct)
  case (1 n)
  show ?case
  proof (cases "n < 10")
    case True
    then show ?thesis by (simp add: nat_toString_small digit_char_value)
  next
    case False
    then show ?thesis using 1
      by (simp add: nat_toString_big parse_digits_append digit_char_value)
  qed
qed

lemma dropWhile_digits:
  assumes "\<forall>c \<in> set s. \<exists>d < 10. c = digit_char d"
  shows "dropWhile is_space s = s"
  using assms digit_char_plain by (cases s) auto

lemma trim_nat_toString: "trim (nat_toString n) = nat_toString n"
proof -
  have a: "\<forall>c \<in> set (nat_toString n). \<exists>d < 10. c = digit_char d"
    using nat_toString_digits by blast
  then have b: "\<forall>c \<in> set (rev (nat_toString n)). \<exists>d < 10. c = digit_char d" by simp
  show ?thesis by (simp add: trim_def dropWhile_digits [OF a] dropWhile_digits [OF b])
qed

lemma BigInt_nat_toString: "BigInt (nat_toString n) = Some (int n)"
proof -
  obtain c cs where s: "nat_toString n = c # cs"
    using nat_toString_digits [of n] by (cases "nat_toString n") auto
  have c: "c \<notin> set ''xXoObB+-''" 
    using nat_toString_digits [of n] digit_char_plain unfolding s by (metis list.set_intros(1))
  have cs: "take 1 cs \<notin> set [''x'', ''X'', ''o'', ''O'', ''b'', ''B'']"
  proof (cases cs)
    case Nil
    then show ?thesis by simp
  next
    case (Cons x xs)
    then have "x \<in> set (nat_toString n)" by (simp add: s)
    then have "x \<notin> set ''xXoObB+-''" using nat_toString_digits [of n] digit_char_plain by metis
    then show ?thesis using Cons by auto
  qed
  have "parse_nat 10 (nat_toString n) = Some n"
    using nat_toString_digits [of n] by (simp add: parse_nat_def parse_digits_nat_toString)
  moreover have "trim (c # cs) = c # cs" using trim_nat_toString [of n] by (simp add: s)
  ultimately show ?thesis
    using c cs by (simp add: BigInt_def s Let_def)
qed

lemma int_toString_nat: "int_toString (int m) = nat_toString m"
  by (simp add: int_toString_def)

lemma bigint_div_nat: "bigint_div (int n) (10 ^ 18) = int (n div 10 ^ 18)"
proof (cases "n = 0")
  case False
  then show ?thesis by (simp add: bigint_div_def zdiv_int)
qed (simp add: bigint_div_def)

lemma bigint_mod_nat: "bigint_mod (int n) (10 ^ 18) = int (n mod 10 ^ 18)"
proof (cases "n = 0")
  case False
  then show ?thesis by (simp add: bigint_mod_def zmod_int)
qed (simp add: bigint_mod_def)

lemma fixed_digits_zero: "fixed_digits k 0 = replicate k CHR ''0''"
  by (induction k) (simp_all add: digit_char_zero replicate_append_same)

lemma length_nat_toString: "f < 10 ^ Suc k \<Longrightarrow> length (nat_toString f) \<le> Suc k"
proof (induction k arbitrary: f)
  case 0
  then show ?case by (simp add: nat_toString_small)
next
  case (Suc k)
  show ?case
  proof (cases "f < 10")
    case True
    then show ?thesis by (simp add: nat_toString_small)
  next
    case False
    have "f div 10 < 10 ^ Suc k" using Suc.prems by (simp add: less_mult_imp_div_less mult.commute)
    then show ?thesis using Suc.IH [of "f div 10"] False by (simp add: nat_toString_big)
  qed
qed

lemma padStart_fixed:
  "f < 10 ^ Suc k \<Longrightarrow> padStart (Suc k) CHR ''0'' (nat_toString f) = fixed_digits (Suc k) f"
proof (induction k arbitrary: f)
  case 0
  then show ?case by (simp add: nat_toString_small padStart_def)
next
  case (Suc k)
  show ?case
  proof (cases "f < 10")
    case True
    then show ?thesis
      by (simp add: nat_toString_small padStart_def fixed_digits_zero replicate_append_same)
  next
    case False
    have lt: "f div 10 < 10 ^ Suc k" using Suc.prems by (simp add: less_mult_imp_div_less mult.commute)
    have len: "length (nat_toString (f div 10)) \<le> Suc k" using length_nat_toString [OF lt] .
    have "padStart (Suc (Suc k)) CHR ''0'' (nat_toString f) =
          padStart (Suc k) CHR ''0'' (nat_toString (f div 10)) @ [digit_char (f mod 10)]"
      using False len by (simp add: nat_toString_big padStart_def)
    then show ?thesis using Suc.IH [OF lt] by simp
  qed
qed

lemma fixed_digits_map:
  "fixed_digits k f = map (\<lambda>i. digit_char (f div 10 ^ (k - 1 - i) mod 10)) [0..<k]"
proof (induction k arbitrary: f)
  case 0
  then show ?case by simp
next
  case (Suc k)
  have "f div 10 div 10 ^ (k - 1 - i) = f div 10 ^ (k - i)" if "i < k" for i
  proof -
    have "(10::nat) * 10 ^ (k - 1 - i) = 10 ^ (k - i)"
      using that by (metis Suc_diff_Suc diff_Suc_eq_diff_pred power_Suc diff_commute)
    then show ?thesis by (metis div_mult2_eq)
  qed
  then show ?case using Suc.IH [of "f div 10"] by simp
qed

lemma div_mod_digit:
  assumes "c dvd b" "0 < a"
  shows "(w mod (a * b)) div a mod c = w div a mod (c::nat)"
proof -
  have "(w mod (a * b)) div a = w div a mod b"
    using assms(2) by (simp add: mod_mult2_eq)
  then show ?thesis using assms(1) by (simp add: mod_mod_cancel)
qed

lemma frac_digit_mod:
  assumes "j < 18"
  shows "(w mod 10 ^ 18) div 10 ^ j mod 10 = w div 10 ^ j mod (10::nat)"
proof -
  have "(10::nat) ^ 18 = 10 ^ j * 10 ^ (18 - j)"
    using assms by (simp only: flip: power_add) simp
  moreover have "(10::nat) dvd 10 ^ (18 - j)" using assms by simp
  ultimately show ?thesis using div_mod_digit [of 10 "10 ^ (18 - j)" "10 ^ j" w] by simp
qed

lemma formatMon_decimal:
  "formatMon (nat_toString w) =
     nat_toString (w div 10 ^ 18) @ ''.'' @
     map (\<lambda>i. digit_char (fractional_digit w i)) [1, 2, 3, 4]"
proof -
  have lt: "w mod 10 ^ 18 < 10 ^ Suc 17" by simp
  have "take 4 (padStart 18 CHR ''0'' (nat_toString (w mod 10 ^ 18))) =
        take 4 (fixed_digits (Suc 17) (w mod 10 ^ 18))"
    using padStart_fixed [OF lt] by simp
  also have "\<dots> = map (\<lambda>i. digit_char ((w mod 10 ^ 18) div 10 ^ (17 - i) mod 10)) [0..<4]"
    by (simp add: fixed_digits_map take_map del: fixed_digits.simps)
  also have "\<dots> = map (\<lambda>i. digit_char (w div 10 ^ (17 - i) mod 10)) [0..<4]"
  proof (rule map_cong [OF refl])
    fix i :: nat
    have "17 - i < 18" by simp
    then show "digit_char ((w mod 10 ^ 18) div 10 ^ (17 - i) mod 10) = digit_char (w div 10 ^ (17 - i) mod 10)"
      by (simp only: frac_digit_mod)
  qed
  also have "\<dots> = map (\<lambda>i. digit_char (fractional_digit w i)) [1, 2, 3, 4]"
    by (simp add: fractional_digit_def upt_conv_Cons)
  finally have frac: "take 4 (padStart 18 CHR ''0'' (nat_toString (w mod 10 ^ 18))) =
      map (\<lambda>i. digit_char (fractional_digit w i)) [1, 2, 3, 4]" .
  show ?thesis
    unfolding formatMon_def BigInt_nat_toString option.case Let_def bigint_div_nat bigint_mod_nat
      int_toString_nat frac
    by (rule refl)
qed

lemma formatMon_one: "formatMon ''1000000000000000000'' = ''1.0000''"
proof -
  have "nat_toString 1000000000000000000 = ''1000000000000000000''"
    by (simp add: nat_toString.simps digit_char_def)
  then have "formatMon ''1000000000000000000'' = formatMon (nat_toString 1000000000000000000)"
    by (rule arg_cong [OF sym])
  also have "\<dots> = ''1.0000''"
    unfolding formatMon_decimal by (simp add: nat_toString.simps digit_char_def fractional_digit_def)
  finally show ?thesis .
qed

lemma formatMon_exact: "formatMon ''1234500000000000000'' = ''1.2345''"
proof -
  have "nat_toString 1234500000000000000 = ''1234500000000000000''"
    by (simp add: nat_toString.simps digit_char_def)
  then have "formatMon ''1234500000000000000'' = formatMon (nat_toString 1234500000000000000)"
    by (rule arg_cong [OF sym])
  also have "\<dots> = ''1.2345''"
    unfolding formatMon_decimal by (simp add: nat_toString.simps digit_char_def fractional_digit_def)
  finally show ?thesis .
qed

lemma formatMon_truncated: "formatMon ''1234560000000000000'' = ''1.2345''"
proof -
  have "nat_toString 1234560000000000000 = ''1234560000000000000''"
    by (simp add: nat_toString.simps digit_char_def)
  then have "formatMon ''1234560000000000000'' = formatMon (nat_toString 1234560000000000000)"
    by (rule arg_cong [OF sym])
  also have "\<dots> = ''1.2345''"
    unfolding formatMon_decimal by (simp add: nat_toString.simps digit_char_def fractional_digit_def)
  finally show ?thesis .
qed


text \<open>
  \<^bold>\<open>C3.\<close>  For every non-negative wei amount \<open>w\<close>, written as a decimal string,
  \<^verbatim>\<open>formatMon\<close> returns the whole part \<open>w div 10^18\<close>, a point, and exactly the first four
  fractional decimal digits of \<open>w / 10^18\<close>; the digits are those of the floor (truncation,
  never rounding).  In particular \<^verbatim>\<open>"1000000000000000000"\<close> gives \<^verbatim>\<open>"1.0000"\<close>,
  \<^verbatim>\<open>"1234500000000000000"\<close> gives \<^verbatim>\<open>"1.2345"\<close> and \<^verbatim>\<open>"1234560000000000000"\<close> gives
  \<^verbatim>\<open>"1.2345"\<close>.
\<close>

theorem formatMon_truncates_to_four_digits:
  "formatMon (nat_toString w) =
     nat_toString (w div 10 ^ 18) @ ''.'' @
       [digit_char (fractional_digit w 1), digit_char (fractional_digit w 2),
        digit_char (fractional_digit w 3), digit_char (fractional_digit w 4)] \<and>
   formatMon ''1000000000000000000'' = ''1.0000'' \<and>
   formatMon ''1234500000000000000'' = ''1.2345'' \<and>
   formatMon ''1234560000000000000'' = ''1.2345''"
  using formatMon_decimal [of w] formatMon_one formatMon_exact formatMon_truncated by simp


section \<open>Properties of progressPercent\<close>






lemma js_number_zero [simp]: "js_number 0 = Finite 0"
  by (simp add: js_number_def to_double_def)














subsection \<open>The rounding error of the percentage\<close>






subsection \<open>Range, monotonicity and value\<close>










end
